theory Spec2Isabelle
  imports Complex_Main
begin

text \<open>
  A model of the chat orchestration of Notate: \<open>chatRequest\<close> (the function of lines 33-277
  of the first source file) and \<open>anthropicAgent\<close> (lines 285-382). Every asynchronous call
  is awaited in the source, so a request is a sequence of calls; each collaborator is a
  parameter that throws or returns, and the model returns, with the result, the list of the
  calls that write. The claims C1-C10 of the specification are settled at the end.
\<close>

section \<open>JavaScript values\<close>

text \<open>
  A thrown value is an \<open>Error\<close> object (its \<open>name\<close>, its optional \<open>code\<close> property and its
  \<open>message\<close>) or any other value, kept by its string conversion. Strings are ASCII texts;
  \<open>undefined\<close> and \<open>null\<close> are \<open>None\<close>; a \<open>bigint | number\<close> identifier is an \<open>int\<close>, and
  \<open>Number(undefined)\<close> (NaN) is \<open>None\<close>.
\<close>

datatype thrown =
    JsError (err_name: string) (err_code: "string option") (err_message: string)
  | JsValue string

type_synonym 'a result = "thrown + 'a"

text \<open>The template literal \<open>${error}\<close>: \<open>Error.prototype.toString\<close> for an Error object.\<close>

definition stringify_thrown :: "thrown \<Rightarrow> string" where
  "stringify_thrown error =
     (case error of
        JsError n c m \<Rightarrow> (if n = [] then m else if m = [] then n else n @ '': '' @ m)
      | JsValue s \<Rightarrow> s)"

text \<open>Reading property \<open>p\<close> of \<open>undefined\<close> raises a TypeError (the wording is V8's).\<close>

definition TypeError_reading :: "string \<Rightarrow> thrown" where
  "TypeError_reading p =
     JsError ''TypeError'' None
       (''Cannot read properties of undefined (reading '' @ [CHR 0x27] @ p @ [CHR 0x27] @ '')'')"

text \<open>Truthiness of an optional number (\<open>undefined\<close>, \<open>0\<close> are falsy) and of an optional string
  (\<open>undefined\<close>, \<open>null\<close> and the empty string are falsy).\<close>

definition truthy_num :: "int option \<Rightarrow> bool" where
  "truthy_num x = (case x of None \<Rightarrow> False | Some n \<Rightarrow> n \<noteq> 0)"

definition truthy_str :: "string option \<Rightarrow> bool" where
  "truthy_str x = (case x of None \<Rightarrow> False | Some s \<Rightarrow> s \<noteq> [])"

definition toLowerCase_char :: "char \<Rightarrow> char" where
  "toLowerCase_char c =
     (case map_of (zip ''ABCDEFGHIJKLMNOPQRSTUVWXYZ'' ''abcdefghijklmnopqrstuvwxyz'') c of
        Some l \<Rightarrow> l
      | None \<Rightarrow> c)"

definition toLowerCase :: "string \<Rightarrow> string" where
  "toLowerCase s = map toLowerCase_char s"

definition substring0 :: "nat \<Rightarrow> string \<Rightarrow> string" where
  \<comment> \<open>\<open>s.substring(0, n)\<close>\<close>
  "substring0 n s = take n s"

section \<open>Data model of the chat request\<close>

record message =
  role :: string
  content :: string
  timestamp :: nat
  data_content :: "string option"
  reasoning_content :: "string option"

record user =
  user_id :: int
  user_name :: string

record user_settings =
  provider :: "string option"
  model :: "string option"
  promptId :: "int option"
  temperature :: "rat option"

record doc =
  doc_content :: string
  doc_metadata :: string

record retrieval =
  top_k :: nat
  results :: "doc list"

text \<open>What \<open>vectorstoreQuery\<close> resolves to: an object whose \<open>status\<close>, \<open>message\<close> and
  \<open>results\<close> properties may each be absent.\<close>

record vs_response =
  vs_status :: "string option"
  vs_message :: "string option"
  vs_results :: "doc list option"

record provider_response =
  pr_id :: int
  pr_messages :: "message list"
  pr_title :: string
  pr_content :: string
  pr_reasoning :: "string option"
  pr_aborted :: bool

text \<open>The object \<open>chatRequest\<close> resolves to. The three early returns set \<open>id\<close>, \<open>messages\<close> and
  \<open>title\<close> only; the normal return spreads the provider's response into it.\<close>

record envelope =
  out_id :: int
  out_messages :: "message list"
  out_title :: string
  out_data_content :: "string option"
  out_reasoning_content :: "string option"
  out_content :: "string option"
  out_reasoning :: "string option"
  out_aborted :: "bool option"

datatype provider =
    OpenAIProvider | OpenRouterProvider | AzureOpenAIProvider | AnthropicProvider
  | GeminiProvider | XAIProvider | LocalModelProvider | OllamaProvider | CustomProvider
  | DeepSeekProvider

text \<open>The arguments of the provider call (the window and the abort signal are left to the
  provider's outcome).\<close>

record provider_args =
  pa_messages :: "message list"
  pa_user :: user
  pa_settings :: user_settings
  pa_prompt :: string
  pa_conversationId :: int
  pa_title :: string
  pa_collectionId :: "int option"
  pa_data :: "retrieval option"

section \<open>Collaborators\<close>

text \<open>
  The modules \<open>chatRequest\<close> imports (the database, the title generator, the vector store,
  the providers) and the host (\<open>os\<close>, the clock, \<open>JSON.stringify\<close>) are parameters: each call
  either throws or returns. Logging is total and leaves no trace here.
\<close>

record env =
  platform :: string
  homedir :: string
  now :: nat
  JSON_stringify :: "retrieval \<Rightarrow> string"
  getUserSettings :: "int \<Rightarrow> user_settings result"
  generateTitle :: "string \<Rightarrow> int \<Rightarrow> string option \<Rightarrow> string option result"
  getCollectionName :: "int \<Rightarrow> string option result"
  vectorstoreQuery :: "string \<Rightarrow> int \<Rightarrow> string \<Rightarrow> int \<Rightarrow> string \<Rightarrow> vs_response option result"
  getUserConversationTitle :: "int option \<Rightarrow> int \<Rightarrow> string option result"
  addUserConversation :: "int \<Rightarrow> string option \<Rightarrow> int result"
  getUserPrompt :: "int \<Rightarrow> int option \<Rightarrow> string option result"
  invoke :: "provider \<Rightarrow> provider_args \<Rightarrow> provider_response result"
  addUserMessage ::
    "int \<Rightarrow> int \<Rightarrow> string \<Rightarrow> string \<Rightarrow> string option \<Rightarrow> int option \<Rightarrow> int result"
  addRetrievedData :: "int \<Rightarrow> string \<Rightarrow> unit result"

text \<open>The calls that write or generate, in the order they are made. A call is listed when it
  is made; whether it returned is what the collaborator answers for these arguments.\<close>

datatype effect =
    AddUserConversation int "string option"
  | InvokeProvider provider provider_args
  | AddUserMessage int int string string "string option" "int option"
  | AddRetrievedData int string

text \<open>A step of the function body continues, returns from \<open>chatRequest\<close>, or throws.\<close>

datatype 'a flow = Continue 'a | Return envelope | Throw thrown

section \<open>chatRequest\<close>

definition lastContent :: "message list \<Rightarrow> string result" where
  \<comment> \<open>\<open>messages[messages.length - 1].content\<close>\<close>
  "lastContent messages =
     (if messages = [] then Inl (TypeError_reading ''content'') else Inr (content (last messages)))"

definition assistantMessage :: "env \<Rightarrow> string \<Rightarrow> message" where
  "assistantMessage env text =
     \<lparr>role = ''assistant'', content = text, timestamp = now env,
      data_content = None, reasoning_content = None\<rparr>"

definition errorEnvelope :: "message list \<Rightarrow> message \<Rightarrow> string \<Rightarrow> envelope" where
  \<comment> \<open>\<open>{ id: -1, messages: [...messages, newMessage], title }\<close>\<close>
  "errorEnvelope messages newMessage t =
     \<lparr>out_id = - 1, out_messages = messages @ [newMessage], out_title = t,
      out_data_content = None, out_reasoning_content = None, out_content = None,
      out_reasoning = None, out_aborted = None\<rparr>"

subsection \<open>Lines 51-59: settings and the generated title\<close>

definition initialTitle ::
  "env \<Rightarrow> message list \<Rightarrow> user \<Rightarrow> int option \<Rightarrow> string option \<Rightarrow>
   (user_settings \<times> string option) result" where
  "initialTitle env messages activeUser conversationId title =
     (let currentTitle = (if truthy_str title then title else None) in
      case getUserSettings env (user_id activeUser) of
        Inl e \<Rightarrow> Inl e
      | Inr userSettings \<Rightarrow>
          if \<not> truthy_num conversationId \<and> currentTitle = None then
            (case lastContent messages of
               Inl e \<Rightarrow> Inl e
             | Inr text \<Rightarrow>
                 (case generateTitle env text (user_id activeUser) (model userSettings) of
                    Inl e \<Rightarrow> Inl e
                  | Inr generated \<Rightarrow> Inr (userSettings, generated)))
          else Inr (userSettings, currentTitle))"

subsection \<open>Lines 61-128: retrieval\<close>

definition logPath :: "env \<Rightarrow> string" where
  "logPath env =
     (if platform env = ''darwin'' then homedir env @ ''/Library/Application Support/notate/main.log''
      else if platform env = ''win32'' then homedir env @ ''/AppData/Roaming/notate/main.log''
      else homedir env @ ''~/.config/notate/main.log'')"

definition unauthorizedContent :: "env \<Rightarrow> string" where
  "unauthorizedContent env =
     ''There is an issue with the SECRET_KEY not being in sync across the front/backend.\<newline>\<newline>'' @
     ''Please try the following steps:\<newline>'' @
     ''1. Restart your PC\<newline>'' @
     ''2. If the issue persists, check your logs at:\<newline>'' @
     ''   '' @ logPath env @ ''\<newline>\<newline>'' @
     ''3. Open a GitHub issue at https://github.com/CNTRLAI/notate and include your logs''"

definition unauthorizedEnvelope :: "env \<Rightarrow> message list \<Rightarrow> envelope" where
  "unauthorizedEnvelope env messages =
     errorEnvelope messages (assistantMessage env (unauthorizedContent env)) ''Need API Key''"

definition vectorstoreErrorEnvelope :: "env \<Rightarrow> message list \<Rightarrow> thrown \<Rightarrow> envelope" where
  "vectorstoreErrorEnvelope env messages error =
     errorEnvelope messages
       (assistantMessage env (''Error in vectorstore query: '' @ stringify_thrown error))
       ''Error in vectorstore query''"

text \<open>The body of the inner \<open>try\<close> (lines 72-113), with \<open>Throw\<close> for what its \<open>catch\<close> receives.\<close>

definition vectorstoreTry ::
  "env \<Rightarrow> message list \<Rightarrow> user \<Rightarrow> int \<Rightarrow> string option \<Rightarrow> retrieval flow" where
  "vectorstoreTry env messages activeUser collectionId collectionName =
     (case lastContent messages of
        Inl e \<Rightarrow> Throw e
      | Inr query \<Rightarrow>
          (case collectionName of
             None \<Rightarrow> Throw (TypeError_reading ''name'')
           | Some name \<Rightarrow>
               (case vectorstoreQuery env query (user_id activeUser) (user_name activeUser)
                       collectionId name of
                  Inl e \<Rightarrow> Throw e
                | Inr None \<Rightarrow> Throw (TypeError_reading ''status'')
                | Inr (Some vectorstoreData) \<Rightarrow>
                    if vs_status vectorstoreData = Some ''error'' \<and>
                       vs_message vectorstoreData = Some ''Unauthorized''
                    then Return (unauthorizedEnvelope env messages)
                    else
                      (case vs_results vectorstoreData of
                         None \<Rightarrow> Throw (TypeError_reading ''length'')
                       | Some rs \<Rightarrow> Continue \<lparr>top_k = length rs, results = rs\<rparr>))))"

definition retrieveData ::
  "env \<Rightarrow> message list \<Rightarrow> user \<Rightarrow> int option \<Rightarrow> retrieval option flow" where
  "retrieveData env messages activeUser collectionId =
     (case collectionId of
        None \<Rightarrow> Continue None
      | Some c \<Rightarrow>
          if c = 0 then Continue None
          else
            (case getCollectionName env c of
               Inl e \<Rightarrow> Throw e
             | Inr collectionName \<Rightarrow>
                 (case vectorstoreTry env messages activeUser c collectionName of
                    Throw error \<Rightarrow> Return (vectorstoreErrorEnvelope env messages error)
                  | Return r \<Rightarrow> Return r
                  | Continue data \<Rightarrow> Continue (Some data))))"

subsection \<open>Lines 130-143: the stored title and the conversation\<close>

definition storedTitle ::
  "env \<Rightarrow> user \<Rightarrow> int option \<Rightarrow> string option \<Rightarrow> string option result" where
  "storedTitle env activeUser conversationId currentTitle =
     (if \<not> truthy_str currentTitle
      then getUserConversationTitle env conversationId (user_id activeUser)
      else Inr currentTitle)"

definition ensureConversation ::
  "env \<Rightarrow> user \<Rightarrow> int option \<Rightarrow> string option \<Rightarrow> effect list \<times> int result" where
  "ensureConversation env activeUser conversationId currentTitle =
     (case conversationId of
        None \<Rightarrow>
          ([AddUserConversation (user_id activeUser) currentTitle],
           addUserConversation env (user_id activeUser) currentTitle)
      | Some c \<Rightarrow>
          if c = 0 then
            ([AddUserConversation (user_id activeUser) currentTitle],
             addUserConversation env (user_id activeUser) currentTitle)
          else ([], Inr c))"

subsection \<open>Lines 145-192: the prompt and the provider\<close>

definition resolvePrompt :: "env \<Rightarrow> user \<Rightarrow> user_settings \<Rightarrow> string result" where
  "resolvePrompt env activeUser userSettings =
     (case getUserPrompt env (user_id activeUser) (promptId userSettings) of
        Inl e \<Rightarrow> Inl e
      | Inr None \<Rightarrow> Inr ''You are a helpful assistant.''
      | Inr (Some prompt) \<Rightarrow> Inr prompt)"

definition noProviderError :: thrown where
  "noProviderError =
     JsError ''Error'' None
       (''No AI provider selected. Please open Settings (top right) make sure you add an API key '' @
        ''and select a provider under the '' @ [CHR 0x27] @ ''AI Provider'' @ [CHR 0x27] @ '' tab.'')"

definition providerOfKey :: "string \<Rightarrow> provider option" where
  "providerOfKey k =
     (if k = ''openai'' then Some OpenAIProvider
      else if k = ''openrouter'' then Some OpenRouterProvider
      else if k = ''azure open ai'' then Some AzureOpenAIProvider
      else if k = ''anthropic'' then Some AnthropicProvider
      else if k = ''gemini'' then Some GeminiProvider
      else if k = ''xai'' then Some XAIProvider
      else if k = ''local'' then Some LocalModelProvider
      else if k = ''ollama'' then Some OllamaProvider
      else if k = ''custom'' then Some CustomProvider
      else if k = ''deepseek'' then Some DeepSeekProvider
      else None)"

definition selectProvider :: "user_settings \<Rightarrow> provider result" where
  \<comment> \<open>\<open>switch (userSettings.provider?.toLowerCase())\<close>\<close>
  "selectProvider userSettings =
     (case provider userSettings of
        None \<Rightarrow> Inl noProviderError
      | Some p \<Rightarrow>
          (case providerOfKey (toLowerCase p) of
             None \<Rightarrow> Inl noProviderError
           | Some f \<Rightarrow> Inr f))"

subsection \<open>Lines 193-210: the fallback title and the provider call\<close>

definition fallbackTitle :: "message list \<Rightarrow> string option \<Rightarrow> string result" where
  "fallbackTitle messages currentTitle =
     (case currentTitle of
        None \<Rightarrow> map_sum id (substring0 20) (lastContent messages)
      | Some t \<Rightarrow> if t = [] then map_sum id (substring0 20) (lastContent messages) else Inr t)"

definition defaultTemperature :: "user_settings \<Rightarrow> user_settings" where
  "defaultTemperature userSettings =
     (case temperature userSettings of
        None \<Rightarrow> userSettings\<lparr>temperature := Some (1 / 2)\<rparr>
      | Some t \<Rightarrow> if t = 0 then userSettings\<lparr>temperature := Some (1 / 2)\<rparr> else userSettings)"

subsection \<open>Lines 211-247: persistence\<close>

definition isForeignKeyError :: "thrown \<Rightarrow> bool" where
  \<comment> \<open>\<open>error instanceof Error && "code" in error && error.code === "SQLITE_CONSTRAINT_FOREIGNKEY"\<close>\<close>
  "isForeignKeyError error =
     (case error of
        JsError n c m \<Rightarrow> c = Some ''SQLITE_CONSTRAINT_FOREIGNKEY''
      | JsValue s \<Rightarrow> False)"

text \<open>The body of the \<open>try\<close> of lines 212-234.\<close>

definition persistTry ::
  "env \<Rightarrow> message list \<Rightarrow> user \<Rightarrow> int \<Rightarrow> int option \<Rightarrow> retrieval option \<Rightarrow>
   provider_response \<Rightarrow> effect list \<times> unit result" where
  "persistTry env messages activeUser conversationId collectionId data result =
     (case lastContent messages of
        Inl e \<Rightarrow> ([], Inl e)
      | Inr text \<Rightarrow>
          (let w1 = AddUserMessage (user_id activeUser) conversationId ''user'' text None None in
           case addUserMessage env (user_id activeUser) conversationId ''user'' text None None of
             Inl e \<Rightarrow> ([w1], Inl e)
           | Inr userMessageId \<Rightarrow>
               (let coll = (if truthy_num collectionId then collectionId else None);
                    w2 = AddUserMessage (user_id activeUser) conversationId ''assistant''
                           (pr_content result) (pr_reasoning result) coll
                in case addUserMessage env (user_id activeUser) conversationId ''assistant''
                          (pr_content result) (pr_reasoning result) coll of
                     Inl e \<Rightarrow> ([w1, w2], Inl e)
                   | Inr assistantMessageId \<Rightarrow>
                       (case data of
                          None \<Rightarrow> ([w1, w2], Inr ())
                        | Some d \<Rightarrow>
                            ([w1, w2, AddRetrievedData assistantMessageId (JSON_stringify env d)],
                             addRetrievedData env assistantMessageId (JSON_stringify env d))))))"

definition persist ::
  "env \<Rightarrow> message list \<Rightarrow> user \<Rightarrow> int \<Rightarrow> int option \<Rightarrow> retrieval option \<Rightarrow>
   provider_response \<Rightarrow> effect list \<times> unit result" where
  "persist env messages activeUser conversationId collectionId data result =
     (case persistTry env messages activeUser conversationId collectionId data result of
        (ws, Inl error) \<Rightarrow> if isForeignKeyError error then (ws, Inr ()) else (ws, Inl error)
      | (ws, Inr u) \<Rightarrow> (ws, Inr u))"

subsection \<open>Lines 250-260: the returned object\<close>

definition stampReasoning :: "provider_response \<Rightarrow> message \<Rightarrow> message" where
  "stampReasoning result msg =
     msg\<lparr>reasoning_content := (if role msg = ''assistant'' then pr_reasoning result else None)\<rparr>"

definition finalEnvelope ::
  "env \<Rightarrow> message list \<Rightarrow> retrieval option \<Rightarrow> string \<Rightarrow> provider_response \<Rightarrow> envelope result" where
  "finalEnvelope env messages data currentTitle result =
     (case (if currentTitle \<noteq> [] then Inr currentTitle
            else map_sum id (substring0 20) (lastContent messages)) of
        Inl e \<Rightarrow> Inl e
      | Inr t \<Rightarrow>
          Inr \<lparr>out_id = pr_id result,
               out_messages = map (stampReasoning result) (pr_messages result),
               out_title = t,
               out_data_content = map_option (JSON_stringify env) data,
               out_reasoning_content =
                 (if truthy_str (pr_reasoning result) then pr_reasoning result else None),
               out_content = Some (pr_content result),
               out_reasoning = pr_reasoning result,
               out_aborted = Some (pr_aborted result)\<rparr>)"

subsection \<open>Lines 51-210: everything before the persistence block\<close>

text \<open>What the function holds when it enters the persistence block: the retrieval data, the
  conversation id, the title and the provider's response.\<close>

record reached =
  rc_data :: "retrieval option"
  rc_conversationId :: int
  rc_title :: string
  rc_result :: provider_response

definition chatRequest_prepare ::
  "env \<Rightarrow> message list \<Rightarrow> user \<Rightarrow> int option \<Rightarrow> string option \<Rightarrow> int option \<Rightarrow>
   effect list \<times> reached flow" where
  "chatRequest_prepare env messages activeUser conversationId title collectionId =
     (case initialTitle env messages activeUser conversationId title of
        Inl e \<Rightarrow> ([], Throw e)
      | Inr (userSettings, title1) \<Rightarrow>
     (case retrieveData env messages activeUser collectionId of
        Throw e \<Rightarrow> ([], Throw e)
      | Return r \<Rightarrow> ([], Return r)
      | Continue data \<Rightarrow>
     (case storedTitle env activeUser conversationId title1 of
        Inl e \<Rightarrow> ([], Throw e)
      | Inr title2 \<Rightarrow>
     (case ensureConversation env activeUser conversationId title2 of
        (ws1, Inl e) \<Rightarrow> (ws1, Throw e)
      | (ws1, Inr conversationId') \<Rightarrow>
     (case resolvePrompt env activeUser userSettings of
        Inl e \<Rightarrow> (ws1, Throw e)
      | Inr prompt \<Rightarrow>
     (case selectProvider userSettings of
        Inl e \<Rightarrow> (ws1, Throw e)
      | Inr selected \<Rightarrow>
     (case fallbackTitle messages title2 of
        Inl e \<Rightarrow> (ws1, Throw e)
      | Inr currentTitle \<Rightarrow>
     (let args = \<lparr>pa_messages = messages, pa_user = activeUser,
                  pa_settings = defaultTemperature userSettings, pa_prompt = prompt,
                  pa_conversationId = conversationId', pa_title = currentTitle,
                  pa_collectionId = collectionId, pa_data = data\<rparr>
      in case invoke env selected args of
        Inl e \<Rightarrow> (ws1 @ [InvokeProvider selected args], Throw e)
      | Inr result \<Rightarrow>
          (ws1 @ [InvokeProvider selected args],
           Continue \<lparr>rc_data = data, rc_conversationId = conversationId',
                     rc_title = currentTitle, rc_result = result\<rparr>)))))))))"

subsection \<open>The body of the outer \<open>try\<close> and its \<open>catch\<close>\<close>

definition chatRequest_try ::
  "env \<Rightarrow> message list \<Rightarrow> user \<Rightarrow> int option \<Rightarrow> string option \<Rightarrow> int option \<Rightarrow>
   effect list \<times> envelope result" where
  "chatRequest_try env messages activeUser conversationId title collectionId =
     (case chatRequest_prepare env messages activeUser conversationId title collectionId of
        (ws, Throw e) \<Rightarrow> (ws, Inl e)
      | (ws, Return r) \<Rightarrow> (ws, Inr r)
      | (ws, Continue cx) \<Rightarrow>
          (case persist env messages activeUser (rc_conversationId cx) collectionId
                  (rc_data cx) (rc_result cx) of
             (ws3, Inl e) \<Rightarrow> (ws @ ws3, Inl e)
           | (ws3, Inr u) \<Rightarrow>
               (ws @ ws3,
                finalEnvelope env messages (rc_data cx) (rc_title cx) (rc_result cx))))"

definition apiKeyEnvelope :: "env \<Rightarrow> message list \<Rightarrow> envelope" where
  "apiKeyEnvelope env messages =
     errorEnvelope messages
       (assistantMessage env ''Please add an API key and select an AI Model in Settings.'')
       ''Need API Key''"

definition chatRequest ::
  "env \<Rightarrow> message list \<Rightarrow> user \<Rightarrow> int option \<Rightarrow> string option \<Rightarrow> int option \<Rightarrow>
   effect list \<times> envelope" where
  "chatRequest env messages activeUser conversationId title collectionId =
     (case chatRequest_try env messages activeUser conversationId title collectionId of
        (ws, Inl error) \<Rightarrow> (ws, apiKeyEnvelope env messages)
      | (ws, Inr r) \<Rightarrow> (ws, r))"

section \<open>JSON.parse\<close>

text \<open>
  \<open>anthropicAgent\<close> hands the model's text to the builtin \<open>JSON.parse\<close>. It is modelled as a
  recursive-descent parser of the JSON grammar (ECMA-404) over the characters of the text.
  Numbers are exact rationals (they agree with the doubles of JavaScript on the integers the
  schema compares with); a \<open>\u\<close> escape above 0x7F is kept as the UTF-8 bytes of its code unit.
  The three mutually recursive parsers count down a fuel; \<open>OutOfFuel\<close> is kept apart from
  \<open>Malformed\<close>.
\<close>

datatype json =
    JNull | JBool bool | JNumber rat | JString string
  | JArray "json list" | JObject "(string \<times> json) list"

datatype 'a parsed = Parsed 'a string | Malformed | OutOfFuel

definition is_json_ws :: "char \<Rightarrow> bool" where
  "is_json_ws c = (c = CHR '' '' \<or> c = CHR 0x09 \<or> c = CHR 0x0A \<or> c = CHR 0x0D)"

definition skip_ws :: "string \<Rightarrow> string" where
  "skip_ws s = dropWhile is_json_ws s"

definition is_digit :: "char \<Rightarrow> bool" where
  "is_digit c = (c \<in> set ''0123456789'')"

definition digit_val :: "char \<Rightarrow> nat" where
  "digit_val c = of_char c - 48"

definition nat_of_digits :: "string \<Rightarrow> nat" where
  "nat_of_digits ds = foldl (\<lambda>n c. 10 * n + digit_val c) 0 ds"

definition hex_val :: "char \<Rightarrow> nat option" where
  "hex_val c =
     map_of (zip ''0123456789abcdefABCDEF''
               [0, 1, 2, 3, 4, 5, 6, 7, 8, 9, 10, 11, 12, 13, 14, 15, 10, 11, 12, 13, 14, 15]) c"

definition utf8_of_code_unit :: "nat \<Rightarrow> string" where
  "utf8_of_code_unit n =
     (if n < 128 then [char_of n]
      else if n < 2048 then [char_of (192 + n div 64), char_of (128 + n mod 64)]
      else [char_of (224 + n div 4096), char_of (128 + (n div 64) mod 64),
            char_of (128 + n mod 64)])"

definition unescape :: "char \<Rightarrow> char option" where
  "unescape e =
     (if e = CHR 0x22 then Some (CHR 0x22)
      else if e = CHR 0x5C then Some (CHR 0x5C)
      else if e = CHR ''/'' then Some (CHR ''/'')
      else if e = CHR ''b'' then Some (CHR 0x08)
      else if e = CHR ''f'' then Some (CHR 0x0C)
      else if e = CHR ''n'' then Some (CHR 0x0A)
      else if e = CHR ''r'' then Some (CHR 0x0D)
      else if e = CHR ''t'' then Some (CHR 0x09)
      else None)"

definition hex4 :: "string \<Rightarrow> nat option" where
  "hex4 s =
     (case map hex_val s of
        [Some h1, Some h2, Some h3, Some h4] \<Rightarrow> Some (((h1 * 16 + h2) * 16 + h3) * 16 + h4)
      | _ \<Rightarrow> None)"

text \<open>The characters of a string literal after its opening quote, up to the closing one.\<close>

fun parse_chars :: "string \<Rightarrow> string \<Rightarrow> (string \<times> string) option" where
  "parse_chars acc [] = None"
| "parse_chars acc [c] = (if c = CHR 0x22 then Some (acc, []) else None)"
| "parse_chars acc (c # e # cs) =
     (if c = CHR 0x22 then Some (acc, e # cs)
      else if c = CHR 0x5C then
        (if e = CHR ''u'' then
           (case hex4 (take 4 cs) of
              None \<Rightarrow> None
            | Some n \<Rightarrow> parse_chars (acc @ utf8_of_code_unit n) (drop 4 cs))
         else
           (case unescape e of
              None \<Rightarrow> None
            | Some d \<Rightarrow> parse_chars (acc @ [d]) cs))
      else if (of_char c :: nat) < 32 then None
      else parse_chars (acc @ [c]) (e # cs))"

text \<open>A number: an optional minus, an integer part without leading zero, an optional fraction
  and an optional exponent.\<close>

definition frac_part :: "string \<Rightarrow> (string \<times> string) option" where
  "frac_part s =
     (if take 1 s = ''.'' then
        (if takeWhile is_digit (drop 1 s) = [] then None
         else Some (takeWhile is_digit (drop 1 s), dropWhile is_digit (drop 1 s)))
      else Some ([], s))"

definition exp_part :: "string \<Rightarrow> (int \<times> string) option" where
  "exp_part s =
     (if take 1 s = ''e'' \<or> take 1 s = ''E'' then
        (let signed = (take 1 (drop 1 s) = ''-'' \<or> take 1 (drop 1 s) = ''+'');
             ds = (if signed then drop 2 s else drop 1 s)
         in if takeWhile is_digit ds = [] then None
            else Some (if take 1 (drop 1 s) = ''-''
                       then - int (nat_of_digits (takeWhile is_digit ds))
                       else int (nat_of_digits (takeWhile is_digit ds)),
                       dropWhile is_digit ds))
      else Some (0, s))"

definition scale10 :: "rat \<Rightarrow> int \<Rightarrow> rat" where
  "scale10 x e = (if e < 0 then x / 10 ^ nat (- e) else x * 10 ^ nat e)"

definition parse_number :: "string \<Rightarrow> (rat \<times> string) option" where
  "parse_number s =
     (let neg = (take 1 s = ''-'');
          s1 = (if neg then drop 1 s else s);
          ip = takeWhile is_digit s1
      in if ip = [] \<or> (1 < length ip \<and> hd ip = CHR ''0'') then None
         else
           (case frac_part (dropWhile is_digit s1) of
              None \<Rightarrow> None
            | Some (fp, s3) \<Rightarrow>
                (case exp_part s3 of
                   None \<Rightarrow> None
                 | Some (ex, s6) \<Rightarrow>
                     (let mant = (of_nat (nat_of_digits (ip @ fp)) :: rat) / 10 ^ length fp;
                          mag = scale10 mant ex
                      in Some (if neg then - mag else mag, s6)))))"

fun parse_value :: "nat \<Rightarrow> string \<Rightarrow> json parsed"
  and parse_elements :: "nat \<Rightarrow> json list \<Rightarrow> string \<Rightarrow> json parsed"
  and parse_members :: "nat \<Rightarrow> (string \<times> json) list \<Rightarrow> string \<Rightarrow> json parsed"
  where
  "parse_value 0 s = OutOfFuel"
| "parse_value (Suc n) s =
     (case skip_ws s of
        [] \<Rightarrow> Malformed
      | c # cs \<Rightarrow>
          if c = CHR ''{'' then
            (case skip_ws cs of
               [] \<Rightarrow> Malformed
             | d # ds \<Rightarrow> if d = CHR ''}'' then Parsed (JObject []) ds else parse_members n [] cs)
          else if c = CHR ''['' then
            (case skip_ws cs of
               [] \<Rightarrow> Malformed
             | d # ds \<Rightarrow> if d = CHR '']'' then Parsed (JArray []) ds else parse_elements n [] cs)
          else if c = CHR 0x22 then
            (case parse_chars [] cs of
               None \<Rightarrow> Malformed
             | Some (t, r) \<Rightarrow> Parsed (JString t) r)
          else if take 4 (c # cs) = ''true'' then Parsed (JBool True) (drop 4 (c # cs))
          else if take 5 (c # cs) = ''false'' then Parsed (JBool False) (drop 5 (c # cs))
          else if take 4 (c # cs) = ''null'' then Parsed JNull (drop 4 (c # cs))
          else
            (case parse_number (c # cs) of
               None \<Rightarrow> Malformed
             | Some (x, r) \<Rightarrow> Parsed (JNumber x) r))"
| "parse_elements 0 acc s = OutOfFuel"
| "parse_elements (Suc n) acc s =
     (case parse_value n s of
        Parsed v r \<Rightarrow>
          (case skip_ws r of
             [] \<Rightarrow> Malformed
           | d # ds \<Rightarrow>
               if d = CHR '','' then parse_elements n (acc @ [v]) ds
               else if d = CHR '']'' then Parsed (JArray (acc @ [v])) ds
               else Malformed)
      | Malformed \<Rightarrow> Malformed
      | OutOfFuel \<Rightarrow> OutOfFuel)"
| "parse_members 0 acc s = OutOfFuel"
| "parse_members (Suc n) acc s =
     (case skip_ws s of
        [] \<Rightarrow> Malformed
      | q # s1 \<Rightarrow>
          if q \<noteq> CHR 0x22 then Malformed
          else
            (case parse_chars [] s1 of
               None \<Rightarrow> Malformed
             | Some (k, s2) \<Rightarrow>
                 (case skip_ws s2 of
                    [] \<Rightarrow> Malformed
                  | colon # s3 \<Rightarrow>
                      if colon \<noteq> CHR '':'' then Malformed
                      else
                        (case parse_value n s3 of
                           Parsed v s4 \<Rightarrow>
                             (case skip_ws s4 of
                                [] \<Rightarrow> Malformed
                              | d # ds \<Rightarrow>
                                  if d = CHR '','' then parse_members n (acc @ [(k, v)]) ds
                                  else if d = CHR ''}'' then Parsed (JObject (acc @ [(k, v)])) ds
                                  else Malformed)
                         | Malformed \<Rightarrow> Malformed
                         | OutOfFuel \<Rightarrow> OutOfFuel))))"

definition SyntaxError :: thrown where
  "SyntaxError = JsError ''SyntaxError'' None ''Unexpected token in JSON''"

text \<open>The whole text must be one value; the fuel is more than the parsers can use.\<close>

definition JSON_parse :: "string \<Rightarrow> json result" where
  "JSON_parse s =
     (case parse_value (Suc (2 * length s)) s of
        Parsed v r \<Rightarrow> if skip_ws r = [] then Inr v else Inl SyntaxError
      | Malformed \<Rightarrow> Inl SyntaxError
      | OutOfFuel \<Rightarrow> Inl SyntaxError)"

section \<open>anthropicAgent\<close>

record chat_param =
  cp_role :: string
  cp_content :: string

datatype content_block = TextBlock string | OtherBlock string

record agent_actions =
  webUrl :: rat
  url :: string

record web_metadata =
  wm_title :: string
  wm_source :: string
  wm_description :: string
  wm_author :: string
  wm_keywords :: string
  wm_ogImage :: string

record web_result =
  metadata :: web_metadata
  textContent :: string

record agent_response =
  ar_content :: string
  ar_webSearchResult :: "web_result option"

text \<open>The backend call and the web fetch are parameters; \<open>sendMessageChunk\<close> is total.\<close>

record agent_env =
  messages_create ::
    "string \<Rightarrow> nat \<Rightarrow> string \<Rightarrow> (string \<times> string) list \<Rightarrow> content_block list result"
  webSearch :: "string \<Rightarrow> web_result option result"

datatype agent_effect =
    SendMessageChunk string
  | MessagesCreate string nat string "(string \<times> string) list"
  | WebSearch string

definition sysPrompt :: string where
  \<open>sysPrompt =
     ''You are an AI Agent with the ability to visit websites and extract text and metadata. \<newline>'' @
     ''    Your task is to analyze the user'' @ [CHR 0x27] @
     ''s question and determine if visiting a website would help answer it.\<newline>'' @
     ''    \<newline>'' @
     ''    If web search would be helpful, respond with EXACTLY this JSON format:\<newline>'' @
     ''    {\<newline>'' @
     ''      "webUrl": 1,\<newline>'' @
     ''      "url": "full_url_here"\<newline>'' @
     ''    }\<newline>'' @
     ''    \<newline>'' @
     ''    If web search is not needed, respond with EXACTLY:\<newline>'' @
     ''    {\<newline>'' @
     ''      "webUrl": 0,\<newline>'' @
     ''      "url": ""\<newline>'' @
     ''    }\<newline>'' @
     ''    \<newline>'' @
     ''    Only respond with one of these two JSON formats, nothing else.\<newline>'' @
     ''    Make sure the URL is a complete, valid URL starting with http:// or https://\<newline>'' @
     ''    Do not include any explanation or additional text in your response.''\<close>

text \<open>The schema \<open>z.object({ webUrl: z.number(), url: z.string() })\<close>: an object (not an array)
  whose \<open>webUrl\<close> is a number and whose \<open>url\<close> is a string; other keys are dropped. Of a
  repeated key, \<open>JSON.parse\<close> keeps the last value.\<close>

definition ZodError :: thrown where
  "ZodError = JsError ''ZodError'' None ''Invalid input''"

definition AgentActions_parse :: "json \<Rightarrow> agent_actions result" where
  "AgentActions_parse j =
     (case j of
        JObject members \<Rightarrow>
          (case map_of (rev members) ''webUrl'' of
             Some (JNumber n) \<Rightarrow>
               (case map_of (rev members) ''url'' of
                  Some (JString s) \<Rightarrow> Inr \<lparr>webUrl = n, url = s\<rparr>
                | _ \<Rightarrow> Inl ZodError)
           | _ \<Rightarrow> Inl ZodError)
      | _ \<Rightarrow> Inl ZodError)"

definition is_js_ws :: "char \<Rightarrow> bool" where
  "is_js_ws c =
     (c = CHR '' '' \<or> c = CHR 0x09 \<or> c = CHR 0x0A \<or> c = CHR 0x0B \<or> c = CHR 0x0C \<or> c = CHR 0x0D)"

definition trim :: "string \<Rightarrow> string" where
  "trim s = rev (dropWhile is_js_ws (rev (dropWhile is_js_ws s)))"

definition responseText :: "content_block list \<Rightarrow> string result" where
  \<comment> \<open>\<open>response.content[0].type === "text" ? response.content[0].text : ""\<close>\<close>
  "responseText blocks =
     (case blocks of
        [] \<Rightarrow> Inl (TypeError_reading ''type'')
      | TextBlock t # rest \<Rightarrow> Inr t
      | OtherBlock ty # rest \<Rightarrow> Inr [])"

definition noAction :: agent_actions where
  "noAction = \<lparr>webUrl = 0, url = []\<rparr>"

text \<open>Lines 344-352: the \<open>try\<close> around the two parsers and its \<open>catch\<close>.\<close>

definition agentActionsTry :: "content_block list \<Rightarrow> agent_actions result" where
  "agentActionsTry blocks =
     (case responseText blocks of
        Inl e \<Rightarrow> Inl e
      | Inr text \<Rightarrow>
          (case JSON_parse (trim text) of
             Inl e \<Rightarrow> Inl e
           | Inr j \<Rightarrow> AgentActions_parse j))"

definition agentActionsOf :: "content_block list \<Rightarrow> agent_actions" where
  "agentActionsOf blocks =
     (case agentActionsTry blocks of Inl error \<Rightarrow> noAction | Inr a \<Rightarrow> a)"

definition finalResponse :: "agent_actions \<Rightarrow> web_result option \<Rightarrow> agent_response" where
  "finalResponse agentActions webSearchResult =
     \<lparr>ar_content =
        (case webSearchResult of
           Some w \<Rightarrow> ''Retrieved content from: '' @ url agentActions
         | None \<Rightarrow> ''No web search was needed or the search failed''),
      ar_webSearchResult = webSearchResult\<rparr>"

definition toAnthropicMessages :: "chat_param list \<Rightarrow> (string \<times> string) list" where
  "toAnthropicMessages messages =
     map (\<lambda>msg. (if cp_role msg = ''assistant'' then ''assistant'' else ''user'', cp_content msg))
       messages"

definition anthropicAgent ::
  "agent_env \<Rightarrow> chat_param list \<Rightarrow> nat \<Rightarrow> agent_effect list \<times> agent_response result" where
  "anthropicAgent env messages maxOutputTokens =
     (let start = [SendMessageChunk ''[Agent]: '',
                   MessagesCreate ''claude-3-sonnet-20240229'' maxOutputTokens sysPrompt
                     (toAnthropicMessages messages)]
      in case messages_create env ''claude-3-sonnet-20240229'' maxOutputTokens sysPrompt
                (toAnthropicMessages messages) of
           Inl e \<Rightarrow> (start, Inl e)
         | Inr response \<Rightarrow>
             (let agentActions = agentActionsOf response in
              if webUrl agentActions = 1 \<and> url agentActions \<noteq> [] then
                (case webSearch env (url agentActions) of
                   Inr found \<Rightarrow>
                     (start @ [WebSearch (url agentActions),
                               SendMessageChunk (''[REASONING]: Visiting website: '' @
                                                 url agentActions @ ''\<newline>'')],
                      Inr (finalResponse agentActions found))
                 | Inl error \<Rightarrow>
                     (start @ [WebSearch (url agentActions),
                               SendMessageChunk (''[REASONING]: Failed to visit website: '' @
                                                 url agentActions @ ''\<newline>'')],
                      Inr (finalResponse agentActions None)))
              else (start, Inr (finalResponse agentActions None))))"

section \<open>A concrete request\<close>

definition quantum_messages :: "message list" where
  "quantum_messages =
     [\<lparr>role = ''user'', content = ''Explain quantum entanglement in simple terms please'',
       timestamp = 0, data_content = None, reasoning_content = None\<rparr>]"

definition alice :: user where
  "alice = \<lparr>user_id = 1, user_name = ''alice''\<rparr>"

definition openai_settings :: user_settings where
  "openai_settings =
     \<lparr>provider = Some ''OpenAI'', model = Some ''gpt-4o'', promptId = None, temperature = None\<rparr>"

definition two_docs :: "doc list" where
  "two_docs =
     [\<lparr>doc_content = ''Entangled particles share one state.'', doc_metadata = ''physics.md''\<rparr>,
      \<lparr>doc_content = ''Bell tests rule out local hidden variables.'', doc_metadata = ''bell.md''\<rparr>]"

definition echo_provider :: "provider \<Rightarrow> provider_args \<Rightarrow> provider_response result" where
  "echo_provider p a =
     Inr \<lparr>pr_id = pa_conversationId a,
          pr_messages = pa_messages a @
            [\<lparr>role = ''assistant'', content = ''Two particles, one shared state.'', timestamp = 1,
              data_content = None, reasoning_content = None\<rparr>],
          pr_title = pa_title a, pr_content = ''Two particles, one shared state.'',
          pr_reasoning = None, pr_aborted = False\<rparr>"

text \<open>A host where every collaborator answers: the title generator returns "Quantum Basics",
  the store returns two documents, new conversations get id 7, the user turn is row 41 and the
  assistant turn row 42.\<close>

definition good_env :: env where
  "good_env =
     \<lparr>platform = ''linux'', homedir = ''/home/alice'', now = 5,
      JSON_stringify = (\<lambda>d. ''{top_k,results}''),
      getUserSettings = (\<lambda>uid. Inr openai_settings),
      generateTitle = (\<lambda>text uid m. Inr (Some ''Quantum Basics'')),
      getCollectionName = (\<lambda>c. Inr (Some ''notes'')),
      vectorstoreQuery = (\<lambda>q uid un c cn.
        Inr (Some \<lparr>vs_status = Some ''success'', vs_message = None, vs_results = Some two_docs\<rparr>)),
      getUserConversationTitle = (\<lambda>c uid. Inr None),
      addUserConversation = (\<lambda>uid t. Inr 7),
      getUserPrompt = (\<lambda>uid p. Inr None),
      invoke = echo_provider,
      addUserMessage = (\<lambda>uid c r t rs co. Inr (if r = ''user'' then 41 else 42)),
      addRetrievedData = (\<lambda>mid s. Inr ())\<rparr>"



definition connection_refused :: thrown where
  "connection_refused = JsError ''Error'' None ''connect ECONNREFUSED 127.0.0.1:47372''"


definition unauthorized_env :: env where
  "unauthorized_env =
     good_env\<lparr>vectorstoreQuery := (\<lambda>q uid un c cn.
       Inr (Some \<lparr>vs_status = Some ''error'', vs_message = Some ''Unauthorized'',
                  vs_results = None\<rparr>))\<rparr>"

definition empty_store_env :: env where
  "empty_store_env =
     good_env\<lparr>vectorstoreQuery := (\<lambda>q uid un c cn.
       Inr (Some \<lparr>vs_status = Some ''success'', vs_message = None, vs_results = Some []\<rparr>))\<rparr>"

definition no_title_env :: env where
  "no_title_env = good_env\<lparr>generateTitle := (\<lambda>text uid m. Inr None)\<rparr>"

definition title_down_env :: env where
  "title_down_env =
     good_env\<lparr>generateTitle := (\<lambda>text uid m. Inl (JsError ''Error'' None ''fetch failed''))\<rparr>"

definition foreign_key_error :: thrown where
  "foreign_key_error =
     JsError ''SqliteError'' (Some ''SQLITE_CONSTRAINT_FOREIGNKEY'') ''FOREIGN KEY constraint failed''"

definition disk_full_error :: thrown where
  "disk_full_error = JsError ''SqliteError'' (Some ''SQLITE_FULL'') ''database or disk is full''"

definition user_turn_fails :: "thrown \<Rightarrow> env" where
  "user_turn_fails e =
     good_env\<lparr>addUserMessage := (\<lambda>uid c r t rs co. if r = ''user'' then Inl e else Inr 42)\<rparr>"

definition wrapped_reply :: string where
  \<open>wrapped_reply = ''Sure! {"webUrl":1,"url":"https://example.com"}''\<close>

definition exact_reply :: string where
  \<open>exact_reply = ''{"webUrl":1,"url":"https://example.com"}''\<close>

definition question :: "chat_param list" where
  "question = [\<lparr>cp_role = ''user'', cp_content = ''What does example.com say?''\<rparr>]"

definition example_page :: web_result where
  "example_page =
     \<lparr>metadata = \<lparr>wm_title = ''Example Domain'', wm_source = ''https://example.com'',
                   wm_description = [], wm_author = [], wm_keywords = [], wm_ogImage = []\<rparr>,
      textContent = ''This domain is for use in illustrative examples in documents.''\<rparr>"

text \<open>A backend that answers every call with the given text, and a web that is either
  reachable or down.\<close>

definition agent_host :: "string \<Rightarrow> web_result option result \<Rightarrow> agent_env" where
  "agent_host reply fetched =
     \<lparr>messages_create = (\<lambda>mdl n sys msgs. Inr [TextBlock reply]),
      webSearch = (\<lambda>u. fetched)\<rparr>"

definition network_error :: thrown where
  "network_error = JsError ''Error'' None ''net::ERR_NAME_NOT_RESOLVED''"

text \<open>The host of \<open>unauthorized_env\<close> on another platform, with another home directory.\<close>

definition unauthorized_on :: "string \<Rightarrow> string \<Rightarrow> env" where
  "unauthorized_on p h = unauthorized_env\<lparr>platform := p, homedir := h\<rparr>"

definition windows_home :: string where
  "windows_home = ''C:'' @ [CHR 0x5C] @ ''Users'' @ [CHR 0x5C] @ ''alice''"

text \<open>A store whose call throws the given value, and a store whose call returns the given
  reply; the reply of a store that reports an error other than "Unauthorized".\<close>

definition store_throws :: "thrown \<Rightarrow> env" where
  "store_throws e = good_env\<lparr>vectorstoreQuery := (\<lambda>q uid un c cn. Inl e)\<rparr>"

definition store_replies :: "vs_response \<Rightarrow> env" where
  "store_replies r = good_env\<lparr>vectorstoreQuery := (\<lambda>q uid un c cn. Inr (Some r))\<rparr>"

definition not_found_reply :: vs_response where
  "not_found_reply =
     \<lparr>vs_status = Some ''error'', vs_message = Some ''Collection not found'',
      vs_results = None\<rparr>"

section \<open>Notions of the specification\<close>



text \<open>\<open>s.includes(t)\<close>: the text \<open>t\<close> occurs in \<open>s\<close>.\<close>

fun contains_text :: "string \<Rightarrow> string \<Rightarrow> bool" where
  "contains_text [] t = (t = [])"
| "contains_text (c # cs) t = (if take (length t) (c # cs) = t then True else contains_text cs t)"

section \<open>Unfolding the model\<close>

lemmas model_defs = chatRequest_def chatRequest_try_def chatRequest_prepare_def initialTitle_def
  retrieveData_def vectorstoreTry_def storedTitle_def ensureConversation_def resolvePrompt_def
  selectProvider_def providerOfKey_def toLowerCase_def toLowerCase_char_def fallbackTitle_def
  defaultTemperature_def persist_def persistTry_def finalEnvelope_def lastContent_def
  truthy_num_def truthy_str_def substring0_def isForeignKeyError_def Let_def

lemmas host_defs = good_env_def quantum_messages_def alice_def openai_settings_def
  echo_provider_def two_docs_def

section \<open>The steps of chatRequest\<close>





lemma chatRequest_of_return:
  assumes "initialTitle env m u conv t = Inr (us, t1)"
    and "retrieveData env m u coll = Return r"
  shows "chatRequest env m u conv t coll = ([], r)"
  using assms by (simp add: chatRequest_def chatRequest_try_def chatRequest_prepare_def)

lemma retrieveData_unauthorized:
  assumes "c \<noteq> 0" "getCollectionName env c = Inr (Some cn)" "m \<noteq> []"
    and "vectorstoreQuery env (content (last m)) (user_id u) (user_name u) c cn = Inr (Some r)"
    and "vs_status r = Some ''error''" "vs_message r = Some ''Unauthorized''"
  shows "retrieveData env m u (Some c) = Return (unauthorizedEnvelope env m)"
  using assms by (simp add: retrieveData_def vectorstoreTry_def lastContent_def)

lemma retrieveData_thrown:
  assumes "c \<noteq> 0" "getCollectionName env c = Inr (Some cn)" "m \<noteq> []"
    and "vectorstoreQuery env (content (last m)) (user_id u) (user_name u) c cn = Inl e"
  shows "retrieveData env m u (Some c) = Return (vectorstoreErrorEnvelope env m e)"
  using assms by (simp add: retrieveData_def vectorstoreTry_def lastContent_def)

text \<open>An error object without \<open>results\<close> and with a message other than "Unauthorized" is not
  handled by the status test: reading \<open>results.length\<close> raises a TypeError inside the \<open>try\<close>,
  and the envelope carries that TypeError, not the store's message.\<close>

lemma retrieveData_error_status_without_results:
  assumes "c \<noteq> 0" "getCollectionName env c = Inr (Some cn)" "m \<noteq> []"
    and "vectorstoreQuery env (content (last m)) (user_id u) (user_name u) c cn = Inr (Some r)"
    and "vs_status r = Some ''error''" "vs_message r \<noteq> Some ''Unauthorized''"
    and "vs_results r = None"
  shows "retrieveData env m u (Some c) =
    Return (vectorstoreErrorEnvelope env m (TypeError_reading ''length''))"
  using assms by (simp add: retrieveData_def vectorstoreTry_def lastContent_def)

lemma prepare_title:
  assumes "chatRequest_prepare env m u conv t coll = (ws, Continue cx)"
  shows "\<exists>us t1 t2. initialTitle env m u conv t = Inr (us, t1) \<and>
           storedTitle env u conv t1 = Inr t2 \<and> fallbackTitle m t2 = Inr (rc_title cx)"
  using assms
  by (auto simp: chatRequest_prepare_def Let_def split: sum.splits flow.splits prod.splits)

lemma final_title:
  assumes "chatRequest_prepare env m u conv t coll = (ws, Continue cx)"
    and "chatRequest_try env m u conv t coll = (ws', Inr r)"
    and "fallbackTitle m t2 = Inr (rc_title cx)"
  shows "fallbackTitle m t2 = Inr (out_title r)"
  using assms
  by (auto simp: chatRequest_try_def finalEnvelope_def fallbackTitle_def
      split: sum.splits prod.splits if_splits option.splits)

lemma title_precedence_general:
  assumes "chatRequest_prepare env m u None None coll = (ws, Continue cx)"
    and "chatRequest_try env m u None None coll = (ws', Inr r)"
    and "getUserSettings env (user_id u) = Inr us"
  shows "(generateTitle env (content (last m)) (user_id u) (model us) = Inr (Some g) \<and> g \<noteq> []
            \<longrightarrow> out_title r = g) \<and>
         (generateTitle env (content (last m)) (user_id u) (model us) = Inr g' \<and>
          \<not> truthy_str g' \<and> getUserConversationTitle env None (user_id u) = Inr st \<and>
          \<not> truthy_str st
            \<longrightarrow> out_title r = substring0 20 (content (last m)))"
proof -
  obtain us' t1 t2 where i: "initialTitle env m u None None = Inr (us', t1)"
    and s: "storedTitle env u None t1 = Inr t2" and f: "fallbackTitle m t2 = Inr (rc_title cx)"
    using prepare_title [OF assms(1)] by blast
  have ft: "fallbackTitle m t2 = Inr (out_title r)" using final_title [OF assms(1,2) f] .
  from i assms(3) have m: "m \<noteq> []"
    and g: "generateTitle env (content (last m)) (user_id u) (model us) = Inr t1"
    by (auto simp: initialTitle_def truthy_str_def truthy_num_def lastContent_def
        split: sum.splits if_splits)
  show ?thesis
  proof (intro conjI impI)
    assume "generateTitle env (content (last m)) (user_id u) (model us) = Inr (Some g) \<and> g \<noteq> []"
    with g have "t1 = Some g" "g \<noteq> []" by auto
    with s have "t2 = Some g" by (simp add: storedTitle_def truthy_str_def)
    with ft \<open>g \<noteq> []\<close> show "out_title r = g" by (simp add: fallbackTitle_def)
  next
    assume h: "generateTitle env (content (last m)) (user_id u) (model us) = Inr g' \<and>
          \<not> truthy_str g' \<and> getUserConversationTitle env None (user_id u) = Inr st \<and>
          \<not> truthy_str st"
    with g have "t1 = g'" by auto
    with s h have "t2 = st" by (simp add: storedTitle_def)
    with ft h m show "out_title r = substring0 20 (content (last m))"
      by (auto simp: fallbackTitle_def truthy_str_def lastContent_def
          split: option.splits if_splits)
  qed
qed






lemma prepare_final:
  assumes "chatRequest_prepare env m u conv t coll = (ws, Continue cx)"
  shows "\<exists>r. finalEnvelope env m (rc_data cx) (rc_title cx) (rc_result cx) = Inr r \<and>
           out_id r = pr_id (rc_result cx) \<and>
           out_content r = Some (pr_content (rc_result cx)) \<and>
           out_data_content r = map_option (JSON_stringify env) (rc_data cx)"
proof -
  obtain t2 where "fallbackTitle m t2 = Inr (rc_title cx)"
    using prepare_title [OF assms] by blast
  then have "rc_title cx = [] \<Longrightarrow> m \<noteq> []"
    by (auto simp: fallbackTitle_def lastContent_def split: option.splits if_splits)
  then show ?thesis
    by (cases "rc_title cx = []") (auto simp: finalEnvelope_def lastContent_def)
qed

section \<open>The outer boundary\<close>




section \<open>Retrieval\<close>

text \<open>
  C2. For every request with a collection id whose retrieval call answers with status "error"
  and message "Unauthorized", \<open>chatRequest\<close> returns at once: the envelope has id -1, title
  "Need API Key" and the original messages plus one assistant message holding the fixed
  remediation text: restart the PC, check the log, whose path under the home directory is
  "/Library/Application Support/notate/main.log" on darwin, "/AppData/Roaming/notate/main.log"
  on win32 and "~/.config/notate/main.log" on any other platform, and open an issue. No
  write has been made, so no conversation row is created.
\<close>

theorem unauthorized_short_circuit:
  assumes "initialTitle env m u conv t = Inr (us, t1)"
    and "c \<noteq> 0" and "getCollectionName env c = Inr (Some cn)" and "m \<noteq> []"
    and "vectorstoreQuery env (content (last m)) (user_id u) (user_name u) c cn = Inr (Some r)"
    and "vs_status r = Some ''error''" and "vs_message r = Some ''Unauthorized''"
  shows "chatRequest env m u conv t (Some c) =
    ([], \<lparr>out_id = - 1,
          out_messages = m @
            [\<lparr>role = ''assistant'',
              content =
                ''There is an issue with the SECRET_KEY not being in sync across the front/backend.\<newline>\<newline>'' @
                ''Please try the following steps:\<newline>'' @
                ''1. Restart your PC\<newline>'' @
                ''2. If the issue persists, check your logs at:\<newline>'' @
                ''   '' @
                (if platform env = ''darwin''
                 then homedir env @ ''/Library/Application Support/notate/main.log''
                 else if platform env = ''win32''
                 then homedir env @ ''/AppData/Roaming/notate/main.log''
                 else homedir env @ ''~/.config/notate/main.log'') @
                ''\<newline>\<newline>'' @
                ''3. Open a GitHub issue at https://github.com/CNTRLAI/notate and include your logs'',
              timestamp = now env, data_content = None, reasoning_content = None\<rparr>],
          out_title = ''Need API Key'', out_data_content = None, out_reasoning_content = None,
          out_content = None, out_reasoning = None, out_aborted = None\<rparr>)"
proof -
  have "retrieveData env m u (Some c) = Return (unauthorizedEnvelope env m)"
    using assms(2-7) by (rule retrieveData_unauthorized)
  with assms(1) have "chatRequest env m u conv t (Some c) = ([], unauthorizedEnvelope env m)"
    by (rule chatRequest_of_return)
  then show ?thesis
    by (simp add: unauthorizedEnvelope_def errorEnvelope_def assistantMessage_def
        unauthorizedContent_def logPath_def)
qed

text \<open>The claim on a macOS, a Windows and a Linux host whose store answers "Unauthorized":
  the three log paths differ.\<close>

theorem unauthorized_short_circuit_witness:
  "chatRequest (unauthorized_on ''darwin'' ''/Users/alice'') quantum_messages alice
     None None (Some 3) =
     ([], \<lparr>out_id = - 1,
           out_messages = quantum_messages @
             [\<lparr>role = ''assistant'',
               content =
                 ''There is an issue with the SECRET_KEY not being in sync across the front/backend.\<newline>\<newline>'' @
                 ''Please try the following steps:\<newline>'' @
                 ''1. Restart your PC\<newline>'' @
                 ''2. If the issue persists, check your logs at:\<newline>'' @
                 ''   /Users/alice/Library/Application Support/notate/main.log\<newline>\<newline>'' @
                 ''3. Open a GitHub issue at https://github.com/CNTRLAI/notate and include your logs'',
               timestamp = 5, data_content = None, reasoning_content = None\<rparr>],
           out_title = ''Need API Key'', out_data_content = None, out_reasoning_content = None,
           out_content = None, out_reasoning = None, out_aborted = None\<rparr>) \<and>
   map content (out_messages (snd (chatRequest (unauthorized_on ''win32'' windows_home)
                                     quantum_messages alice None None (Some 3)))) =
     [''Explain quantum entanglement in simple terms please'',
      ''There is an issue with the SECRET_KEY not being in sync across the front/backend.\<newline>\<newline>'' @
      ''Please try the following steps:\<newline>'' @
      ''1. Restart your PC\<newline>'' @
      ''2. If the issue persists, check your logs at:\<newline>'' @
      ''   C:'' @ [CHR 0x5C] @ ''Users'' @ [CHR 0x5C] @
      ''alice/AppData/Roaming/notate/main.log\<newline>\<newline>'' @
      ''3. Open a GitHub issue at https://github.com/CNTRLAI/notate and include your logs''] \<and>
   map content (out_messages (snd (chatRequest (unauthorized_on ''linux'' ''/home/alice'')
                                     quantum_messages alice None None (Some 3)))) =
     [''Explain quantum entanglement in simple terms please'',
      ''There is an issue with the SECRET_KEY not being in sync across the front/backend.\<newline>\<newline>'' @
      ''Please try the following steps:\<newline>'' @
      ''1. Restart your PC\<newline>'' @
      ''2. If the issue persists, check your logs at:\<newline>'' @
      ''   /home/alice~/.config/notate/main.log\<newline>\<newline>'' @
      ''3. Open a GitHub issue at https://github.com/CNTRLAI/notate and include your logs'']"
proof -
  have i: "initialTitle (unauthorized_on p h) quantum_messages alice None None =
      Inr (openai_settings, Some ''Quantum Basics'')" for p h
    by (simp add: model_defs host_defs unauthorized_env_def unauthorized_on_def)
  have c: "(3::int) \<noteq> 0" by simp
  have n: "getCollectionName (unauthorized_on p h) 3 = Inr (Some ''notes'')" for p h
    by (simp add: host_defs unauthorized_env_def unauthorized_on_def)
  have m: "quantum_messages \<noteq> []" by (simp add: quantum_messages_def)
  have q: "vectorstoreQuery (unauthorized_on p h) (content (last quantum_messages))
      (user_id alice) (user_name alice) 3 ''notes'' =
      Inr (Some \<lparr>vs_status = Some ''error'', vs_message = Some ''Unauthorized'',
                 vs_results = None\<rparr>)" for p h
    by (simp add: host_defs unauthorized_env_def unauthorized_on_def)
  have st: "vs_status \<lparr>vs_status = Some ''error'', vs_message = Some ''Unauthorized'',
                 vs_results = None\<rparr> = Some ''error''" by simp
  have ms: "vs_message \<lparr>vs_status = Some ''error'', vs_message = Some ''Unauthorized'',
                 vs_results = None\<rparr> = Some ''Unauthorized''" by simp
  note T = unauthorized_short_circuit [OF i c n m q st ms]
  have e: "platform (unauthorized_on p h) = p" "homedir (unauthorized_on p h) = h"
    "now (unauthorized_on p h) = 5" for p h
    by (simp_all add: unauthorized_on_def unauthorized_env_def good_env_def)
  show ?thesis unfolding T e
    by (simp add: quantum_messages_def windows_home_def)
qed

text \<open>
  C3, amended. The claim as stated fails for a store that reports the error in its reply, as
  an object with status "error" and a message other than "Unauthorized": lines 80-113 test
  the message "Unauthorized" only, so the reply is read as a result. What holds: for every
  request with a collection id whose retrieval call raises an error, \<open>chatRequest\<close> returns
  at once: the envelope has id -1, title "Error in vectorstore query" and the original
  messages plus one assistant message whose content is "Error in vectorstore query: "
  followed by the error converted to a string (for an Error object its name, ": " and its
  message; for another thrown value its string).
\<close>

theorem vectorstore_error_short_circuit:
  assumes "initialTitle env m u conv t = Inr (us, t1)"
    and "c \<noteq> 0" and "getCollectionName env c = Inr (Some cn)" and "m \<noteq> []"
    and "vectorstoreQuery env (content (last m)) (user_id u) (user_name u) c cn = Inl e"
  shows "chatRequest env m u conv t (Some c) =
    ([], \<lparr>out_id = - 1,
          out_messages = m @
            [\<lparr>role = ''assistant'',
              content = ''Error in vectorstore query: '' @
                (case e of
                   JsError name code msg \<Rightarrow>
                     if name = [] then msg else if msg = [] then name else name @ '': '' @ msg
                 | JsValue s \<Rightarrow> s),
              timestamp = now env, data_content = None, reasoning_content = None\<rparr>],
          out_title = ''Error in vectorstore query'', out_data_content = None,
          out_reasoning_content = None, out_content = None, out_reasoning = None,
          out_aborted = None\<rparr>)"
proof -
  have "retrieveData env m u (Some c) = Return (vectorstoreErrorEnvelope env m e)"
    using assms(2-5) by (rule retrieveData_thrown)
  with assms(1)
  have "chatRequest env m u conv t (Some c) = ([], vectorstoreErrorEnvelope env m e)"
    by (rule chatRequest_of_return)
  then show ?thesis
    by (simp add: vectorstoreErrorEnvelope_def errorEnvelope_def assistantMessage_def
        stringify_thrown_def)
qed

text \<open>The claim as stated is false: the store replies with status "error" and the message
  "Collection not found". Without \<open>results\<close> in the reply the content is the text of a
  TypeError and does not include the store's message; with \<open>results\<close> in the reply the request
  is not short-circuited and returns the conversation's id and title.\<close>

theorem vectorstore_error_short_circuit_counterexample:
  "vs_status not_found_reply = Some ''error'' \<and>
   vs_message not_found_reply = Some ''Collection not found'' \<and>
   map content (out_messages (snd (chatRequest (store_replies not_found_reply) quantum_messages
                                     alice None None (Some 3)))) =
     [''Explain quantum entanglement in simple terms please'',
      ''Error in vectorstore query: TypeError: Cannot read properties of undefined (reading '' @
      [CHR 0x27] @ ''length'' @ [CHR 0x27] @ '')''] \<and>
   \<not> contains_text
       (content (last (out_messages (snd (chatRequest (store_replies not_found_reply)
                                            quantum_messages alice None None (Some 3))))))
       ''Collection not found'' \<and>
   out_id (snd (chatRequest (store_replies (not_found_reply\<lparr>vs_results := Some two_docs\<rparr>))
                  quantum_messages alice None None (Some 3))) = 7 \<and>
   out_title (snd (chatRequest (store_replies (not_found_reply\<lparr>vs_results := Some two_docs\<rparr>))
                     quantum_messages alice None None (Some 3))) = ''Quantum Basics''"
  by (simp add: model_defs host_defs store_replies_def not_found_reply_def
      vectorstoreErrorEnvelope_def errorEnvelope_def assistantMessage_def
      stringify_thrown_def TypeError_reading_def)

text \<open>The amended claim on stores that throw an Error with a message, an Error without a
  message, an Error without a name, and a string.\<close>

theorem vectorstore_error_short_circuit_witness:
  "chatRequest (store_throws connection_refused) quantum_messages alice None None (Some 3) =
     ([], \<lparr>out_id = - 1,
           out_messages = quantum_messages @
             [\<lparr>role = ''assistant'',
               content =
                 ''Error in vectorstore query: Error: connect ECONNREFUSED 127.0.0.1:47372'',
               timestamp = 5, data_content = None, reasoning_content = None\<rparr>],
           out_title = ''Error in vectorstore query'', out_data_content = None,
           out_reasoning_content = None, out_content = None, out_reasoning = None,
           out_aborted = None\<rparr>) \<and>
   map content (out_messages (snd (chatRequest (store_throws (JsError ''AbortError'' None []))
                                     quantum_messages alice None None (Some 3)))) =
     [''Explain quantum entanglement in simple terms please'',
      ''Error in vectorstore query: AbortError''] \<and>
   map content (out_messages (snd (chatRequest (store_throws (JsError [] None ''no route''))
                                     quantum_messages alice None None (Some 3)))) =
     [''Explain quantum entanglement in simple terms please'',
      ''Error in vectorstore query: no route''] \<and>
   map content (out_messages (snd (chatRequest (store_throws (JsValue ''timeout''))
                                     quantum_messages alice None None (Some 3)))) =
     [''Explain quantum entanglement in simple terms please'',
      ''Error in vectorstore query: timeout'']"
proof -
  have i: "initialTitle (store_throws e) quantum_messages alice None None =
      Inr (openai_settings, Some ''Quantum Basics'')" for e
    by (simp add: model_defs host_defs store_throws_def)
  have c: "(3::int) \<noteq> 0" by simp
  have n: "getCollectionName (store_throws e) 3 = Inr (Some ''notes'')" for e
    by (simp add: host_defs store_throws_def)
  have m: "quantum_messages \<noteq> []" by (simp add: quantum_messages_def)
  have q: "vectorstoreQuery (store_throws e) (content (last quantum_messages))
      (user_id alice) (user_name alice) 3 ''notes'' = Inl e" for e
    by (simp add: host_defs store_throws_def)
  note T = vectorstore_error_short_circuit [OF i c n m q]
  have t: "now (store_throws e) = 5" for e
    by (simp add: store_throws_def good_env_def)
  show ?thesis unfolding T t
    by (simp add: connection_refused_def quantum_messages_def)
qed

text \<open>
  C4. Whenever the retrieval step hands on a retrieval result, its \<open>top_k\<close> is the number of
  elements of its \<open>results\<close>, and these are the \<open>results\<close> of the store's response: nothing else
  enters \<open>top_k\<close>, whatever the size of the response.
\<close>

theorem top_k_is_result_count:
  assumes "retrieveData env m u coll = Continue (Some d)"
  shows "top_k d = length (results d) \<and>
    (\<exists>c cn r. coll = Some c \<and>
       vectorstoreQuery env (content (last m)) (user_id u) (user_name u) c cn = Inr (Some r) \<and>
       vs_results r = Some (results d))"
  using assms
  by (fastforce simp: retrieveData_def vectorstoreTry_def lastContent_def
      split: option.splits if_splits sum.splits flow.splits)

text \<open>The claim on a store that returns no document, and on one that returns two.\<close>

theorem top_k_is_result_count_witness:
  "(\<exists>d. retrieveData empty_store_env quantum_messages alice (Some 3) = Continue (Some d) \<and>
        results d = [] \<and> top_k d = 0) \<and>
   (\<exists>d. retrieveData good_env quantum_messages alice (Some 3) = Continue (Some d) \<and>
        results d = two_docs \<and> top_k d = 2)"
proof -
  obtain d0 where a: "retrieveData empty_store_env quantum_messages alice (Some 3) =
      Continue (Some d0)" and b: "results d0 = []"
    by (simp add: model_defs host_defs empty_store_env_def)
  from top_k_is_result_count [OF a] b have c: "top_k d0 = 0" by simp
  obtain d2 where a2: "retrieveData good_env quantum_messages alice (Some 3) =
      Continue (Some d2)" and b2: "results d2 = two_docs"
    by (simp add: model_defs host_defs empty_store_env_def)
  from top_k_is_result_count [OF a2] b2 have c2: "top_k d2 = 2" by (simp add: two_docs_def)
  from a b c a2 b2 c2 show ?thesis by blast
qed

section \<open>The title\<close>

text \<open>
  C5, amended. The claim as stated fails when the title generator is unavailable in the sense
  that it raises: the error reaches the outer \<open>catch\<close> and the title is "Need API Key". What
  holds, for the request with the one user message "Explain quantum entanglement in simple
  terms please", no conversation id and no explicit title, whenever the request reaches the
  persistence block and returns from there: if the title generator returns "Quantum Basics",
  the envelope's title is "Quantum Basics"; if the title generator returns no title (null or
  the empty string) and the stored-title lookup returns none either, the envelope's title is
  the first 20 characters of the message, "Explain quantum enta".
\<close>

theorem title_precedence:
  assumes "chatRequest_prepare env quantum_messages u None None coll = (ws, Continue cx)"
    and "chatRequest_try env quantum_messages u None None coll = (ws', Inr r)"
    and "getUserSettings env (user_id u) = Inr us"
  shows "(generateTitle env ''Explain quantum entanglement in simple terms please''
            (user_id u) (model us) = Inr (Some ''Quantum Basics'')
          \<longrightarrow> out_title r = ''Quantum Basics'') \<and>
         (generateTitle env ''Explain quantum entanglement in simple terms please''
            (user_id u) (model us) = Inr g \<and> \<not> truthy_str g \<and>
          getUserConversationTitle env None (user_id u) = Inr st \<and> \<not> truthy_str st
          \<longrightarrow> out_title r = ''Explain quantum enta'')"
  using title_precedence_general [OF assms, of "''Quantum Basics''" g st]
  by (simp add: quantum_messages_def substring0_def)

text \<open>The claim as stated is false when the title generator raises and no title is stored.\<close>

theorem title_precedence_counterexample:
  "generateTitle title_down_env ''Explain quantum entanglement in simple terms please''
      (user_id alice) (model openai_settings) = Inl (JsError ''Error'' None ''fetch failed'') \<and>
   getUserConversationTitle title_down_env None (user_id alice) = Inr None \<and>
   out_title (snd (chatRequest title_down_env quantum_messages alice None None None)) =
     ''Need API Key'' \<and>
   out_title (snd (chatRequest title_down_env quantum_messages alice None None None)) \<noteq>
     ''Explain quantum enta''"
  by (simp add: model_defs host_defs title_down_env_def apiKeyEnvelope_def errorEnvelope_def)

text \<open>The amended claim on a host whose generator returns "Quantum Basics", and on one whose
  generator returns no title.\<close>

theorem title_precedence_witness:
  "out_title (snd (chatRequest good_env quantum_messages alice None None None)) =
     ''Quantum Basics'' \<and>
   out_title (snd (chatRequest no_title_env quantum_messages alice None None None)) =
     ''Explain quantum enta''"
proof -
  obtain ws cx where p: "chatRequest_prepare good_env quantum_messages alice None None None =
      (ws, Continue cx)" by (simp add: model_defs host_defs no_title_env_def)
  obtain ws' r where t: "chatRequest_try good_env quantum_messages alice None None None =
      (ws', Inr r)" by (simp add: model_defs host_defs no_title_env_def)
  have s: "getUserSettings good_env (user_id alice) = Inr openai_settings"
    by (simp add: good_env_def)
  have g: "generateTitle good_env ''Explain quantum entanglement in simple terms please''
            (user_id alice) (model openai_settings) = Inr (Some ''Quantum Basics'')"
    by (simp add: good_env_def)
  from title_precedence [OF p t s] g have "out_title r = ''Quantum Basics''" by blast
  with t have a: "out_title (snd (chatRequest good_env quantum_messages alice None None None)) =
     ''Quantum Basics''" by (simp add: chatRequest_def)
  obtain ws2 cx2 where p2: "chatRequest_prepare no_title_env quantum_messages alice
      None None None = (ws2, Continue cx2)" by (simp add: model_defs host_defs no_title_env_def)
  obtain ws2' r2 where t2: "chatRequest_try no_title_env quantum_messages alice None None None =
      (ws2', Inr r2)" by (simp add: model_defs host_defs no_title_env_def)
  have s2: "getUserSettings no_title_env (user_id alice) = Inr openai_settings"
    by (simp add: no_title_env_def good_env_def)
  have g2: "generateTitle no_title_env ''Explain quantum entanglement in simple terms please''
            (user_id alice) (model openai_settings) = Inr None \<and> \<not> truthy_str None \<and>
          getUserConversationTitle no_title_env None (user_id alice) = Inr None \<and>
          \<not> truthy_str None"
    by (simp add: no_title_env_def good_env_def truthy_str_def)
  from title_precedence [OF p2 t2 s2, of None None] g2
  have "out_title r2 = ''Explain quantum enta''" by blast
  with t2
  have b: "out_title (snd (chatRequest no_title_env quantum_messages alice None None None)) =
     ''Explain quantum enta''" by (simp add: chatRequest_def)
  from a b show ?thesis by simp
qed




section \<open>Persistence\<close>

text \<open>
  C9. For every request that reaches the persistence block, when a call of the block raises
  (as the second recording of a turn does when it violates referential integrity):
  if the error is an Error object whose code is SQLITE_CONSTRAINT_FOREIGNKEY, it is swallowed,
  \<open>chatRequest\<close> does not raise and returns the normal envelope (the provider's id and
  content); every other error leaves the outer \<open>try\<close> and the caller receives the envelope
  of the outer \<open>catch\<close>.
\<close>

theorem foreign_key_error_swallowed:
  assumes "chatRequest_prepare env m u conv t coll = (ws, Continue cx)"
    and "persistTry env m u (rc_conversationId cx) coll (rc_data cx) (rc_result cx) =
           (ws3, Inl e)"
  shows "(isForeignKeyError e \<longrightarrow>
            (\<exists>r. chatRequest_try env m u conv t coll = (ws @ ws3, Inr r) \<and>
                 chatRequest env m u conv t coll = (ws @ ws3, r) \<and>
                 out_id r = pr_id (rc_result cx) \<and>
                 out_content r = Some (pr_content (rc_result cx)))) \<and>
         (\<not> isForeignKeyError e \<longrightarrow>
            chatRequest_try env m u conv t coll = (ws @ ws3, Inl e) \<and>
            chatRequest env m u conv t coll = (ws @ ws3, apiKeyEnvelope env m))"
proof -
  obtain r where r: "finalEnvelope env m (rc_data cx) (rc_title cx) (rc_result cx) = Inr r"
    "out_id r = pr_id (rc_result cx)" "out_content r = Some (pr_content (rc_result cx))"
    using prepare_final [OF assms(1)] by blast
  show ?thesis using assms r
    by (auto simp: chatRequest_def chatRequest_try_def persist_def)
qed

text \<open>The claim on a database that rejects the user turn, once with the foreign-key error
  and once with a full disk.\<close>

theorem foreign_key_error_swallowed_witness:
  "out_id (snd (chatRequest (user_turn_fails foreign_key_error) quantum_messages alice
                  None None None)) = 7 \<and>
   snd (chatRequest (user_turn_fails disk_full_error) quantum_messages alice None None None) =
     apiKeyEnvelope (user_turn_fails disk_full_error) quantum_messages"
proof -
  obtain ws cx where p: "chatRequest_prepare (user_turn_fails foreign_key_error) quantum_messages
      alice None None None = (ws, Continue cx)" and id: "pr_id (rc_result cx) = 7"
    by (simp add: model_defs host_defs user_turn_fails_def foreign_key_error_def
        disk_full_error_def)
  obtain ws3 where q: "persistTry (user_turn_fails foreign_key_error) quantum_messages alice
      (rc_conversationId cx) None (rc_data cx) (rc_result cx) = (ws3, Inl foreign_key_error)"
    by (simp add: model_defs host_defs user_turn_fails_def foreign_key_error_def
        disk_full_error_def)
  have fk: "isForeignKeyError foreign_key_error"
    by (simp add: isForeignKeyError_def foreign_key_error_def)
  from foreign_key_error_swallowed [OF p q] fk id
  have a: "out_id (snd (chatRequest (user_turn_fails foreign_key_error) quantum_messages alice
                  None None None)) = 7" by auto
  obtain ws' cx' where p': "chatRequest_prepare (user_turn_fails disk_full_error)
      quantum_messages alice None None None = (ws', Continue cx')"
    by (simp add: model_defs host_defs user_turn_fails_def foreign_key_error_def
        disk_full_error_def)
  obtain ws3' where q': "persistTry (user_turn_fails disk_full_error) quantum_messages alice
      (rc_conversationId cx') None (rc_data cx') (rc_result cx') = (ws3', Inl disk_full_error)"
    by (simp add: model_defs host_defs user_turn_fails_def foreign_key_error_def
        disk_full_error_def)
  have nfk: "\<not> isForeignKeyError disk_full_error"
    by (simp add: isForeignKeyError_def disk_full_error_def)
  from foreign_key_error_swallowed [OF p' q'] nfk
  have "chatRequest (user_turn_fails disk_full_error) quantum_messages alice None None None =
     (ws' @ ws3', apiKeyEnvelope (user_turn_fails disk_full_error) quantum_messages)" by blast
  then have b: "snd (chatRequest (user_turn_fails disk_full_error) quantum_messages alice
                       None None None) =
     apiKeyEnvelope (user_turn_fails disk_full_error) quantum_messages" by simp
  from a b show ?thesis by simp
qed




section \<open>The parser of JSON.parse\<close>

text \<open>Each parser returns a strictly shorter rest, so the fuel that \<open>JSON_parse\<close> gives is
  never used up: a rejected text is rejected by the grammar.\<close>

lemma skip_ws_length: "length (skip_ws s) \<le> length s"
  by (simp add: skip_ws_def length_dropWhile_le)

lemma skip_ws_Cons: "skip_ws s = c # cs \<Longrightarrow> length cs < length s"
  using skip_ws_length [of s] by simp

lemma parse_chars_consumes: "parse_chars acc s = Some (t, r) \<Longrightarrow> length r < length s"
proof (induction acc s rule: parse_chars.induct)
  case (1 acc)
  then show ?case by simp
next
  case (2 acc c)
  then show ?case by (simp split: if_splits)
next
  case (3 acc c e cs)
  show ?case
  proof (cases "c = CHR 0x22")
    case True
    with "3.prems" show ?thesis by simp
  next
    case nq: False
    show ?thesis
    proof (cases "c = CHR 0x5C")
      case esc: True
      show ?thesis
      proof (cases "e = CHR ''u''")
        case True
        from "3.prems" nq esc True obtain k where h: "hex4 (take 4 cs) = Some k"
          by (simp split: option.splits)
        with "3.prems" nq esc True
        have "parse_chars (acc @ utf8_of_code_unit k) (drop 4 cs) = Some (t, r)" by simp
        with "3.IH"(1) nq esc True h have "length r < length (drop 4 cs)" by blast
        then show ?thesis by simp
      next
        case False
        from "3.prems" nq esc False obtain d where d: "unescape e = Some d"
          by (simp split: option.splits)
        with "3.prems" nq esc False have "parse_chars (acc @ [d]) cs = Some (t, r)" by simp
        with "3.IH"(2) nq esc False d have "length r < length cs" by blast
        then show ?thesis by simp
      qed
    next
      case False
      with "3.prems" nq have c: "\<not> (of_char c :: nat) < 32"
        and p: "parse_chars (acc @ [c]) (e # cs) = Some (t, r)"
        by (simp_all split: if_splits)
      with "3.IH"(3) nq False have "length r < length (e # cs)" by blast
      then show ?thesis by simp
    qed
  qed
qed

lemma frac_part_length: "frac_part s = Some (fp, r) \<Longrightarrow> length r \<le> length s"
proof -
  have "length (dropWhile is_digit (drop 1 s)) \<le> length (drop 1 s)"
    by (rule length_dropWhile_le)
  then show "frac_part s = Some (fp, r) \<Longrightarrow> length r \<le> length s"
    by (auto simp: frac_part_def split: if_splits)
qed

lemma exp_part_length: "exp_part s = Some (ex, r) \<Longrightarrow> length r \<le> length s"
proof -
  have "length (dropWhile is_digit (drop 1 s)) \<le> length (drop 1 s)"
    "length (dropWhile is_digit (drop 2 s)) \<le> length (drop 2 s)"
    by (rule length_dropWhile_le)+
  then show "exp_part s = Some (ex, r) \<Longrightarrow> length r \<le> length s"
    by (auto simp: exp_part_def Let_def split: if_splits)
qed

lemma parse_number_consumes:
  assumes "parse_number s = Some (x, r)"
  shows "length r < length s"
proof -
  define s1 where "s1 = (if take 1 s = ''-'' then drop 1 s else s)"
  have ip: "takeWhile is_digit s1 \<noteq> []"
    using assms by (auto simp: parse_number_def Let_def s1_def split: if_splits)
  from assms ip obtain fp s3 where f: "frac_part (dropWhile is_digit s1) = Some (fp, s3)"
    by (auto simp: parse_number_def Let_def s1_def split: if_splits option.splits)
  from assms ip f obtain ex where e: "exp_part s3 = Some (ex, r)"
    by (auto simp: parse_number_def Let_def s1_def split: if_splits option.splits)
  have l1: "length s1 \<le> length s" by (simp add: s1_def)
  have "length (takeWhile is_digit s1) + length (dropWhile is_digit s1) = length s1"
    by (metis length_append takeWhile_dropWhile_id)
  with ip have l2: "length (dropWhile is_digit s1) < length s1"
    by (cases "takeWhile is_digit s1") auto
  from l1 l2 frac_part_length [OF f] exp_part_length [OF e] show ?thesis by simp
qed

lemma parse_consumes:
  "parse_value n s = Parsed v r \<Longrightarrow> length r < length s"
  "parse_elements n es s = Parsed v r \<Longrightarrow> length r < length s"
  "parse_members n ms s = Parsed v r \<Longrightarrow> length r < length s"
proof (induction n s and n es s and n ms s arbitrary: v r and v r and v r
    rule: parse_value_parse_elements_parse_members.induct)
  case (1 s)
  then show ?case by simp
next
  case (2 n s)
  show ?case
  proof (cases "skip_ws s")
    case Nil
    with 2 show ?thesis by simp
  next
    case (Cons c cs)
    note sk = skip_ws_Cons [OF Cons]
    consider (obj) "c = CHR ''{''" | (arr) "c \<noteq> CHR ''{''" "c = CHR ''[''"
      | (other) "c \<noteq> CHR ''{''" "c \<noteq> CHR ''[''" by blast
    then show ?thesis
    proof cases
      case obj
      show ?thesis
      proof (cases "skip_ws cs")
        case Nil
        with "2.prems" Cons obj show ?thesis by simp
      next
        case (Cons d ds)
        note sk2 = skip_ws_Cons [OF Cons]
        show ?thesis
        proof (cases "d = CHR ''}''")
          case True
          with "2.prems" \<open>skip_ws s = c # cs\<close> obj Cons sk sk2 show ?thesis by simp
        next
          case False
          with "2.prems" \<open>skip_ws s = c # cs\<close> obj Cons
          have "parse_members n [] cs = Parsed v r" by simp
          with "2.IH"(1) \<open>skip_ws s = c # cs\<close> obj Cons False
          have "length r < length cs" by blast
          with sk show ?thesis by simp
        qed
      qed
    next
      case arr
      show ?thesis
      proof (cases "skip_ws cs")
        case Nil
        with "2.prems" Cons arr show ?thesis by simp
      next
        case (Cons d ds)
        note sk2 = skip_ws_Cons [OF Cons]
        show ?thesis
        proof (cases "d = CHR '']''")
          case True
          with "2.prems" \<open>skip_ws s = c # cs\<close> arr Cons sk sk2 show ?thesis by simp
        next
          case False
          with "2.prems" \<open>skip_ws s = c # cs\<close> arr Cons
          have "parse_elements n [] cs = Parsed v r" by simp
          with "2.IH"(2) \<open>skip_ws s = c # cs\<close> arr Cons False
          have "length r < length cs" by blast
          with sk show ?thesis by simp
        qed
      qed
    next
      case other
      have "length r \<le> length cs"
        using "2.prems" Cons other
        by (auto split: if_splits option.splits
            dest!: parse_chars_consumes parse_number_consumes)
      with sk show ?thesis by simp
    qed
  qed
next
  case (3 es s)
  then show ?case by simp
next
  case (4 n es s)
  from "4.prems" obtain v1 r1 where p: "parse_value n s = Parsed v1 r1"
    by (auto split: parsed.splits)
  then have l1: "length r1 < length s" using "4.IH"(1) by blast
  from "4.prems" p obtain d ds where sk: "skip_ws r1 = d # ds"
    by (auto split: list.splits)
  note l2 = skip_ws_Cons [OF sk]
  show ?case
  proof (cases "d = CHR '',''")
    case True
    with "4.prems" p sk have "parse_elements n (es @ [v1]) ds = Parsed v r" by simp
    with "4.IH"(2) p sk True have "length r < length ds" by blast
    with l1 l2 show ?thesis by simp
  next
    case False
    with "4.prems" p sk have "r = ds" by (auto split: if_splits)
    with l1 l2 show ?thesis by simp
  qed
next
  case (5 ms s)
  then show ?case by simp
next
  case (6 n ms s)
  from "6.prems" obtain q s1 where sk: "skip_ws s = q # s1" and q: "q = CHR 0x22"
    by (auto split: list.splits if_splits)
  from "6.prems" sk q obtain k s2 where pc: "parse_chars [] s1 = Some (k, s2)"
    by (auto split: option.splits)
  from "6.prems" sk q pc obtain colon s3 where sk2: "skip_ws s2 = colon # s3"
    and colon: "colon = CHR '':''"
    by (auto split: list.splits if_splits)
  from "6.prems" sk q pc sk2 colon obtain v1 s4 where pv: "parse_value n s3 = Parsed v1 s4"
    by (auto split: parsed.splits)
  from "6.prems" sk q pc sk2 colon pv obtain d ds where sk3: "skip_ws s4 = d # ds"
    by (auto split: list.splits)
  have l: "length s1 < length s" "length s2 < length s1" "length s3 < length s2"
    "length ds < length s4"
    using skip_ws_Cons [OF sk] parse_chars_consumes [OF pc] skip_ws_Cons [OF sk2]
      skip_ws_Cons [OF sk3] by simp_all
  have l4: "length s4 < length s3"
    using "6.IH"(1) sk q pc sk2 colon pv by blast
  show ?case
  proof (cases "d = CHR '',''")
    case True
    with "6.prems" sk q pc sk2 colon pv sk3
    have "parse_members n (ms @ [(k, v1)]) ds = Parsed v r" by simp
    with "6.IH"(2) sk q pc sk2 colon pv sk3 True have "length r < length ds" by blast
    with l l4 show ?thesis by simp
  next
    case False
    with "6.prems" sk q pc sk2 colon pv sk3 have "r = ds" by (auto split: if_splits)
    with l l4 show ?thesis by simp
  qed
qed


lemma parse_fuel:
  "2 * length s < n \<Longrightarrow> parse_value n s \<noteq> OutOfFuel"
  "2 * length s + 2 \<le> n \<Longrightarrow> parse_elements n es s \<noteq> OutOfFuel"
  "2 * length s + 2 \<le> n \<Longrightarrow> parse_members n ms s \<noteq> OutOfFuel"
proof (induction n s and n es s and n ms s
    rule: parse_value_parse_elements_parse_members.induct)
  case (1 s)
  then show ?case by simp
next
  case (2 n s)
  show ?case
  proof (cases "skip_ws s")
    case Nil
    then show ?thesis by simp
  next
    case (Cons c cs)
    note sk = skip_ws_Cons [OF Cons]
    with "2.prems" have fuel: "2 * length cs + 2 \<le> n" by simp
    consider (obj) "c = CHR ''{''" | (arr) "c \<noteq> CHR ''{''" "c = CHR ''[''"
      | (other) "c \<noteq> CHR ''{''" "c \<noteq> CHR ''[''" by blast
    then show ?thesis
    proof cases
      case obj
      show ?thesis
      proof (cases "skip_ws cs")
        case Nil
        with \<open>skip_ws s = c # cs\<close> obj show ?thesis by simp
      next
        case (Cons d ds)
        show ?thesis
        proof (cases "d = CHR ''}''")
          case True
          with \<open>skip_ws s = c # cs\<close> obj Cons show ?thesis by simp
        next
          case False
          with "2.IH"(1) \<open>skip_ws s = c # cs\<close> obj Cons fuel
          have "parse_members n [] cs \<noteq> OutOfFuel" by blast
          with \<open>skip_ws s = c # cs\<close> obj Cons False show ?thesis by simp
        qed
      qed
    next
      case arr
      show ?thesis
      proof (cases "skip_ws cs")
        case Nil
        with \<open>skip_ws s = c # cs\<close> arr show ?thesis by simp
      next
        case (Cons d ds)
        show ?thesis
        proof (cases "d = CHR '']''")
          case True
          with \<open>skip_ws s = c # cs\<close> arr Cons show ?thesis by simp
        next
          case False
          with "2.IH"(2) \<open>skip_ws s = c # cs\<close> arr Cons fuel
          have "parse_elements n [] cs \<noteq> OutOfFuel" by blast
          with \<open>skip_ws s = c # cs\<close> arr Cons False show ?thesis by simp
        qed
      qed
    next
      case other
      with Cons show ?thesis by (simp split: option.splits)
    qed
  qed
next
  case (3 es s)
  then show ?case by simp
next
  case (4 n es s)
  from "4.prems" have "2 * length s < n" by simp
  with "4.IH"(1) have nv: "parse_value n s \<noteq> OutOfFuel" by blast
  show ?case
  proof (cases "parse_value n s")
    case (Parsed v1 r1)
    note l1 = parse_consumes(1) [OF Parsed]
    show ?thesis
    proof (cases "skip_ws r1")
      case Nil
      with Parsed show ?thesis by simp
    next
      case (Cons d ds)
      note l2 = skip_ws_Cons [OF Cons]
      show ?thesis
      proof (cases "d = CHR '',''")
        case True
        from l1 l2 "4.prems" have "2 * length ds + 2 \<le> n" by simp
        with "4.IH"(2) Parsed Cons True
        have "parse_elements n (es @ [v1]) ds \<noteq> OutOfFuel" by blast
        with Parsed Cons True show ?thesis by simp
      next
        case False
        with Parsed Cons show ?thesis by simp
      qed
    qed
  next
    case Malformed
    then show ?thesis by simp
  next
    case OutOfFuel
    with nv show ?thesis by simp
  qed
next
  case (5 ms s)
  then show ?case by simp
next
  case (6 n ms s)
  show ?case
  proof (cases "skip_ws s")
    case Nil
    then show ?thesis by simp
  next
    case (Cons q s1)
    note l1 = skip_ws_Cons [OF Cons]
    show ?thesis
    proof (cases "q = CHR 0x22")
      case False
      with Cons show ?thesis by simp
    next
      case q: True
      show ?thesis
      proof (cases "parse_chars [] s1")
        case None
        with Cons q show ?thesis by simp
      next
        case (Some ks)
        obtain k s2 where ks: "ks = (k, s2)" by (cases ks)
        with Some have pc: "parse_chars [] s1 = Some (k, s2)" by simp
        note l2 = parse_chars_consumes [OF pc]
        show ?thesis
        proof (cases "skip_ws s2")
          case Nil
          with \<open>skip_ws s = q # s1\<close> q pc show ?thesis by simp
        next
          case (Cons colon s3)
          note sk2 = Cons
          note l3 = skip_ws_Cons [OF Cons]
          show ?thesis
          proof (cases "colon = CHR '':''")
            case False
            with \<open>skip_ws s = q # s1\<close> q pc sk2 show ?thesis by simp
          next
            case colon: True
            from l1 l2 l3 "6.prems" have "2 * length s3 < n" by simp
            with "6.IH"(1) \<open>skip_ws s = q # s1\<close> q pc sk2 colon
            have nv: "parse_value n s3 \<noteq> OutOfFuel" by blast
            show ?thesis
            proof (cases "parse_value n s3")
              case (Parsed v1 s4)
              note l4 = parse_consumes(1) [OF Parsed]
              show ?thesis
              proof (cases "skip_ws s4")
                case Nil
                with \<open>skip_ws s = q # s1\<close> q pc sk2 colon Parsed show ?thesis by simp
              next
                case (Cons d ds)
                note l5 = skip_ws_Cons [OF Cons]
                show ?thesis
                proof (cases "d = CHR '',''")
                  case True
                  from l1 l2 l3 l4 l5 "6.prems" have "2 * length ds + 2 \<le> n" by simp
                  with "6.IH"(2) \<open>skip_ws s = q # s1\<close> q pc sk2 colon Parsed Cons True
                  have "parse_members n (ms @ [(k, v1)]) ds \<noteq> OutOfFuel" by blast
                  with \<open>skip_ws s = q # s1\<close> q pc sk2 colon Parsed Cons True
                  show ?thesis by simp
                next
                  case False
                  with \<open>skip_ws s = q # s1\<close> q pc sk2 colon Parsed Cons
                  show ?thesis by simp
                qed
              qed
            next
              case Malformed
              with \<open>skip_ws s = q # s1\<close> q pc sk2 colon show ?thesis by simp
            next
              case OutOfFuel
              with nv show ?thesis by simp
            qed
          qed
        qed
      qed
    qed
  qed
qed

lemma JSON_parse_fuel: "parse_value (Suc (2 * length s)) s \<noteq> OutOfFuel"
  by (rule parse_fuel(1)) simp

section \<open>The sub-agent\<close>

text \<open>Whatever is thrown while the reply is read, parsed or validated, the agent's decision
  is the default \<open>{webUrl: 0, url: ""}\<close>, for which no fetch is made.\<close>

lemma agentActionsOf_fallback: "agentActionsTry blocks = Inl e \<Longrightarrow> agentActionsOf blocks = noAction"
  by (simp add: agentActionsOf_def)

lemma anthropicAgent_returns:
  assumes "messages_create env ''claude-3-sonnet-20240229'' n sysPrompt
             (toAnthropicMessages messages) = Inr response"
  shows "\<exists>ws out. anthropicAgent env messages n = (ws, Inr out)"
  using assms by (auto simp: anthropicAgent_def Let_def split: sum.splits)

lemma wrapped_reply_rejected: "agentActionsTry [TextBlock wrapped_reply] = Inl SyntaxError"
  by code_simp

lemma exact_reply_accepted:
  "agentActionsTry [TextBlock exact_reply] = Inr \<lparr>webUrl = 1, url = ''https://example.com''\<rparr>"
  by code_simp

text \<open>
  C7. When the backend's reply is the text \<open>Sure! {"webUrl":1,"url":"https://example.com"}\<close>,
  JSON wrapped in prose, \<open>anthropicAgent\<close> does not raise: its decision is the default
  \<open>{webUrl: 0, url: ""}\<close>, no fetch is made, and it returns "No web search was needed or the
  search failed". When the reply is exactly \<open>{"webUrl":1,"url":"https://example.com"}\<close>, the
  decision is \<open>{webUrl: 1, url: "https://example.com"}\<close> and a fetch of that URL is attempted.
\<close>

theorem strict_schema_parsing:
  assumes "messages_create env ''claude-3-sonnet-20240229'' n sysPrompt
             (toAnthropicMessages messages) = Inr [TextBlock text]"
  shows \<open>(text = ''Sure! {"webUrl":1,"url":"https://example.com"}'' \<longrightarrow>
            agentActionsOf [TextBlock text] = \<lparr>webUrl = 0, url = ''''\<rparr> \<and>
            anthropicAgent env messages n =
              ([SendMessageChunk ''[Agent]: '',
                MessagesCreate ''claude-3-sonnet-20240229'' n sysPrompt
                  (toAnthropicMessages messages)],
               Inr \<lparr>ar_content = ''No web search was needed or the search failed'',
                    ar_webSearchResult = None\<rparr>)) \<and>
         (text = ''{"webUrl":1,"url":"https://example.com"}'' \<longrightarrow>
            agentActionsOf [TextBlock text] = \<lparr>webUrl = 1, url = ''https://example.com''\<rparr> \<and>
            (\<exists>rest out. anthropicAgent env messages n =
               ([SendMessageChunk ''[Agent]: '',
                 MessagesCreate ''claude-3-sonnet-20240229'' n sysPrompt
                   (toAnthropicMessages messages),
                 WebSearch ''https://example.com''] @ rest, Inr out)))\<close>
proof (intro conjI impI)
  assume t: \<open>text = ''Sure! {"webUrl":1,"url":"https://example.com"}''\<close>
  then have a: "agentActionsOf [TextBlock text] = noAction"
    using wrapped_reply_rejected by (simp add: agentActionsOf_def wrapped_reply_def)
  then show "agentActionsOf [TextBlock text] = \<lparr>webUrl = 0, url = ''''\<rparr>"
    by (simp add: noAction_def)
  from a assms show "anthropicAgent env messages n =
              ([SendMessageChunk ''[Agent]: '',
                MessagesCreate ''claude-3-sonnet-20240229'' n sysPrompt
                  (toAnthropicMessages messages)],
               Inr \<lparr>ar_content = ''No web search was needed or the search failed'',
                    ar_webSearchResult = None\<rparr>)"
    by (simp add: anthropicAgent_def noAction_def finalResponse_def)
next
  assume t: \<open>text = ''{"webUrl":1,"url":"https://example.com"}''\<close>
  then show a: "agentActionsOf [TextBlock text] = \<lparr>webUrl = 1, url = ''https://example.com''\<rparr>"
    using exact_reply_accepted by (simp add: agentActionsOf_def exact_reply_def)
  from a assms show "\<exists>rest out. anthropicAgent env messages n =
               ([SendMessageChunk ''[Agent]: '',
                 MessagesCreate ''claude-3-sonnet-20240229'' n sysPrompt
                   (toAnthropicMessages messages),
                 WebSearch ''https://example.com''] @ rest, Inr out)"
    by (cases "webSearch env ''https://example.com''") (simp_all add: anthropicAgent_def)
qed

text \<open>The claim on a backend that answers with each of the two texts.\<close>

theorem strict_schema_parsing_witness:
  "anthropicAgent (agent_host wrapped_reply (Inr (Some example_page))) question 1024 =
     ([SendMessageChunk ''[Agent]: '',
       MessagesCreate ''claude-3-sonnet-20240229'' 1024 sysPrompt
         [(''user'', ''What does example.com say?'')]],
      Inr \<lparr>ar_content = ''No web search was needed or the search failed'',
           ar_webSearchResult = None\<rparr>) \<and>
   (\<exists>rest out. anthropicAgent (agent_host exact_reply (Inr (Some example_page))) question 1024 =
     ([SendMessageChunk ''[Agent]: '',
       MessagesCreate ''claude-3-sonnet-20240229'' 1024 sysPrompt
         [(''user'', ''What does example.com say?'')],
       WebSearch ''https://example.com''] @ rest, Inr out))"
proof -
  have a: "messages_create (agent_host wrapped_reply (Inr (Some example_page)))
      ''claude-3-sonnet-20240229'' 1024 sysPrompt (toAnthropicMessages question) =
      Inr [TextBlock wrapped_reply]"
    by (simp add: agent_host_def)
  have b: "messages_create (agent_host exact_reply (Inr (Some example_page)))
      ''claude-3-sonnet-20240229'' 1024 sysPrompt (toAnthropicMessages question) =
      Inr [TextBlock exact_reply]"
    by (simp add: agent_host_def)
  have q: "toAnthropicMessages question = [(''user'', ''What does example.com say?'')]"
    by (simp add: toAnthropicMessages_def question_def)
  from strict_schema_parsing [OF a] strict_schema_parsing [OF b] q
  show ?thesis by (simp add: wrapped_reply_def exact_reply_def)
qed

text \<open>
  C8. When the agent's decision is \<open>webUrl = 1\<close> with a URL and the fetch of that URL fails,
  \<open>anthropicAgent\<close> does not raise: after the fetch attempt it sends the notice
  "[REASONING]: Failed to visit website: " with the URL to the window, and returns the content
  "No web search was needed or the search failed" with a null web-search result.
\<close>

theorem fetch_failure_recovered:
  assumes "messages_create env ''claude-3-sonnet-20240229'' n sysPrompt
             (toAnthropicMessages messages) = Inr response"
    and "agentActionsOf response = \<lparr>webUrl = 1, url = u\<rparr>"
    and "u \<noteq> []"
    and "webSearch env u = Inl e"
  shows "anthropicAgent env messages n =
     ([SendMessageChunk ''[Agent]: '',
       MessagesCreate ''claude-3-sonnet-20240229'' n sysPrompt (toAnthropicMessages messages),
       WebSearch u,
       SendMessageChunk (''[REASONING]: Failed to visit website: '' @ u @ ''\<newline>'')],
      Inr \<lparr>ar_content = ''No web search was needed or the search failed'',
           ar_webSearchResult = None\<rparr>)"
  using assms by (simp add: anthropicAgent_def finalResponse_def)

text \<open>The claim on a backend that asks for https://example.com while the network is down.\<close>

theorem fetch_failure_recovered_witness:
  "anthropicAgent (agent_host exact_reply (Inl network_error)) question 1024 =
     ([SendMessageChunk ''[Agent]: '',
       MessagesCreate ''claude-3-sonnet-20240229'' 1024 sysPrompt
         [(''user'', ''What does example.com say?'')],
       WebSearch ''https://example.com'',
       SendMessageChunk ''[REASONING]: Failed to visit website: https://example.com\<newline>''],
      Inr \<lparr>ar_content = ''No web search was needed or the search failed'',
           ar_webSearchResult = None\<rparr>)"
proof -
  have a: "messages_create (agent_host exact_reply (Inl network_error))
      ''claude-3-sonnet-20240229'' 1024 sysPrompt (toAnthropicMessages question) =
      Inr [TextBlock exact_reply]"
    by (simp add: agent_host_def)
  have b: "agentActionsOf [TextBlock exact_reply] = \<lparr>webUrl = 1, url = ''https://example.com''\<rparr>"
    using exact_reply_accepted by (simp add: agentActionsOf_def)
  have c: "''https://example.com'' \<noteq> []" by simp
  have d: "webSearch (agent_host exact_reply (Inl network_error)) ''https://example.com'' =
      Inl network_error" by (simp add: agent_host_def)
  have q: "toAnthropicMessages question = [(''user'', ''What does example.com say?'')]"
    by (simp add: toAnthropicMessages_def question_def)
  from fetch_failure_recovered [OF a b c d] q show ?thesis by simp
qed

end
